theory Spec2Isabelle
  imports Complex_Main
begin

section \<open>SalinLive: the conversation state machine of App.tsx\<close>

text \<open>
  The repository holds the component \<^verbatim>\<open>App\<close> twice: \<^verbatim>\<open>src/App.tsx\<close> and a second file
  (\<^verbatim>\<open>src/unnamed/part_000\<close>) with the same hooks, refs and handlers. The handlers agree almost
  line by line; a definition below takes the \<open>variant\<close> as an argument when the two texts
  differ in what it models, and branches on it exactly there.

  Modelling conventions.
  \<^item> The hooks (\<^verbatim>\<open>useState\<close>) and refs (\<^verbatim>\<open>useRef\<close>) of the component are the fields of the
    record \<open>app\<close>, under the source's names. A \<^verbatim>\<open>setX(v)\<close> is the field update.
  \<^item> Calls into the browser and the transport (stop a source, close a context, send a
    tool response, ...) are appended to the field \<open>effects\<close>, in program order.
  \<^item> What a handler reads from its environment (the device clock, \<^verbatim>\<open>Date.now()\<close>, the outcome
    of the helpers of \<^verbatim>\<open>services/audioUtils\<close>, which is not among the source files) is an
    argument of the handler.
  \<^item> A handler runs to completion: the points where the source awaits (closing a context,
    decoding a chunk) are not interleaved with other handlers. The four stages of
    \<^verbatim>\<open>cleanupResources\<close> are separate definitions, so the states in which the closing flag is
    set are states of the model.
  \<^item> JavaScript numbers that are times in seconds are reals: the rounding of the double
    addition is outside the model.
  \<^item> Strings are lists of 8-bit characters, read as the code units below 256.
\<close>

subsection \<open>types.ts\<close>

datatype AppState = IDLE | SLEEP | STANDBY | CONNECTING | LISTENING | SPEAKING | RECONNECTING | ERROR

datatype Mood = NEUTRAL | HAPPY | SAD | SURPRISED | THINKING | ANGRY | EXCITED | CONFUSED

text \<open>
  At run time the enum \<^verbatim>\<open>Mood\<close> is a plain object whose eight own properties map each name to
  itself. The mood state holds whatever \<^verbatim>\<open>setMood\<close> was given: a member of the enumeration, or
  (see \<open>Mood_index\<close>) the value found under a property inherited from \<^verbatim>\<open>Object.prototype\<close>;
  \<open>Inherited k\<close> records that \<^verbatim>\<open>setMood\<close> was handed \<^verbatim>\<open>Object.prototype[k]\<close>. What React makes of
  it is exact for "toString" (run as an updater, the state becomes the string
  "[object Undefined]"); for other keys (such as "valueOf", "hasOwnProperty", "__proto__")
  the component throws in its next render, which is not modelled: in no case is the mood
  left as it was with the component carrying on.
\<close>

datatype mood_value = Member Mood | Inherited string

datatype role = Role_user | Role_model

record TranscriptEntry =
  entry_role :: role
  entry_text :: string
  entry_timestamp :: int
  entry_mood :: mood_value

datatype variant = App_tsx | Part_000

subsection \<open>String operations of the JavaScript library\<close>

definition isWhiteSpace :: "char \<Rightarrow> bool" where
  "isWhiteSpace c = (of_char c \<in> {9, 10, 11, 12, 13, 32, 160 :: nat})"

text \<open>\<^verbatim>\<open>String.prototype.trim\<close>\<close>

definition trim :: "string \<Rightarrow> string" where
  "trim s = rev (dropWhile isWhiteSpace (rev (dropWhile isWhiteSpace s)))"

definition lowerChar :: "char \<Rightarrow> char" where
  "lowerChar c =
     (let n = (of_char c :: nat)
      in if (65 \<le> n \<and> n \<le> 90) \<or> (192 \<le> n \<and> n \<le> 222 \<and> n \<noteq> 215)
         then char_of (n + 32) else c)"

text \<open>\<^verbatim>\<open>String.prototype.toLowerCase\<close>\<close>

definition toLowerCase :: "string \<Rightarrow> string" where
  "toLowerCase s = map lowerChar s"

fun startsWith :: "string \<Rightarrow> string \<Rightarrow> bool" where
  "startsWith s [] = True"
| "startsWith [] (t # ts) = False"
| "startsWith (c # cs) (t # ts) = (c = t \<and> startsWith cs ts)"

text \<open>\<^verbatim>\<open>String.prototype.includes\<close>: \<open>t\<close> occurs in \<open>s\<close> as a contiguous substring.\<close>

fun str_includes :: "string \<Rightarrow> string \<Rightarrow> bool" where
  "str_includes [] t = (t = [])"
| "str_includes (c # cs) t = (startsWith (c # cs) t \<or> str_includes cs t)"

subsection \<open>The component's state\<close>

type_synonym handle = nat

datatype effect =
    SessionClose
  | InputContextClose
  | OutputContextClose
  | OutputContextResume
  | SourceStop handle
  | SourceStart handle real
  | SendRealtimeInput string
  | SendToolResponse string string
  | CaptureConnected
  | RecognitionStart
  | RecognitionStop
  | ConsoleError
  | UncaughtTypeError
  | SetTimeout nat

datatype context_state = Running | Suspended

text \<open>
  \<open>mood\<close> is the mood state as of the latest \<^verbatim>\<open>setMood\<close>; \<open>moodRef\<close> is its mirror, which the
  effect hook (\<open>syncMoodRef\<close>, below) brings up to date after a render.
  \<open>sourcesRef\<close> is a JavaScript \<^verbatim>\<open>Set\<close>: a list without repetitions, in insertion order.
  \<open>recognitionRef\<close> holds, for the recognizer object it points to, the value of \<^verbatim>\<open>state\<close> that the
  recognizer's callbacks closed over when \<^verbatim>\<open>enableWakeWord\<close> built them; \<open>sessionState\<close> is the
  value of \<^verbatim>\<open>state\<close> that the callbacks of the latest \<^verbatim>\<open>ai.live.connect\<close> closed over.
  \<open>sourceCount\<close> numbers the objects \<^verbatim>\<open>createBufferSource\<close> has returned, so that each is new.
\<close>

record app =
  state :: AppState
  mood :: mood_value
  transcripts :: "TranscriptEntry list"
  errorMessage :: "string option"
  moodRef :: mood_value
  sessionRef :: bool
  audioContextRef :: bool
  outputAudioContextRef :: "context_state option"
  sourcesRef :: "handle list"
  nextStartTimeRef :: real
  currentInputTranscription :: string
  currentOutputTranscription :: string
  recognitionRef :: "AppState option"
  isClosingRef :: bool
  sessionState :: AppState
  sourceCount :: nat
  effects :: "effect list"

definition initial :: app where
  "initial = \<lparr> state = IDLE, mood = Member NEUTRAL, transcripts = [], errorMessage = None,
     moodRef = Member NEUTRAL, sessionRef = False, audioContextRef = False,
     outputAudioContextRef = None, sourcesRef = [], nextStartTimeRef = 0,
     currentInputTranscription = [], currentOutputTranscription = [],
     recognitionRef = None, isClosingRef = False, sessionState = IDLE, sourceCount = 0,
     effects = [] \<rparr>"

definition emit :: "effect list \<Rightarrow> app \<Rightarrow> app" where
  "emit es s = s\<lparr>effects := effects s @ es\<rparr>"

text \<open>The effects a handler performed: those of \<open>s'\<close> past the ones \<open>s\<close> already had.\<close>

definition performed :: "app \<Rightarrow> app \<Rightarrow> effect list" where
  "performed s s' = drop (length (effects s)) (effects s')"

text \<open>\<^verbatim>\<open>useEffect(() => { moodRef.current = mood; }, [mood])\<close>\<close>

definition syncMoodRef :: "app \<Rightarrow> app" where
  "syncMoodRef s = s\<lparr>moodRef := mood s\<rparr>"

subsection \<open>cleanupResources\<close>

definition cleanup_begin :: "app \<Rightarrow> app" where
  "cleanup_begin s =
     (let s1 = s\<lparr>isClosingRef := True\<rparr>
      in if sessionRef s1 then (emit [SessionClose] s1)\<lparr>sessionRef := False\<rparr> else s1)"

definition cleanup_closeInput :: "app \<Rightarrow> app" where
  "cleanup_closeInput s =
     (if audioContextRef s then (emit [InputContextClose] s)\<lparr>audioContextRef := False\<rparr> else s)"

definition cleanup_closeOutput :: "app \<Rightarrow> app" where
  "cleanup_closeOutput s =
     (if outputAudioContextRef s \<noteq> None
      then (emit [OutputContextClose] s)\<lparr>outputAudioContextRef := None\<rparr> else s)"

definition stopAll :: "app \<Rightarrow> app" where
  "stopAll s = (emit (map SourceStop (sourcesRef s)) s)\<lparr>sourcesRef := []\<rparr>"

definition cleanup_finish :: "app \<Rightarrow> app" where
  "cleanup_finish s = (stopAll s)\<lparr>isClosingRef := False\<rparr>"

definition cleanupResources :: "app \<Rightarrow> app" where
  "cleanupResources s = cleanup_finish (cleanup_closeOutput (cleanup_closeInput (cleanup_begin s)))"

subsection \<open>onerror\<close>

text \<open>The error object the transport hands over: its \<^verbatim>\<open>message\<close>, when it has one.\<close>

type_synonym error_event = "string option"

definition overloadedText :: string where
  "overloadedText = ''Salin is currently overloaded. Please wait a moment and try again.''"

definition genericText :: string where
  "genericText = ''Connection encountered an issue.''"

definition networkText :: string where
  "networkText = ''Network stability issues. Reconnecting...''"

definition mentions :: "error_event \<Rightarrow> string \<Rightarrow> bool" where
  "mentions err t = (case err of None \<Rightarrow> False | Some msg \<Rightarrow> str_includes msg t)"

definition onerror :: "variant \<Rightarrow> app \<Rightarrow> error_event \<Rightarrow> app" where
  "onerror v s err =
     (let s1 = emit [ConsoleError] s;
          s2 = (case v of
                  App_tsx \<Rightarrow> s1\<lparr>errorMessage := Some networkText\<rparr>
                | Part_000 \<Rightarrow>
                    if mentions err ''unavailable'' \<or> mentions err ''503''
                    then s1\<lparr>errorMessage := Some overloadedText\<rparr>
                    else s1\<lparr>errorMessage := Some genericText\<rparr>)
      in cleanupResources (s2\<lparr>state := ERROR\<rparr>))"

subsection \<open>onmessage: tool calls\<close>

text \<open>
  \<^verbatim>\<open>Mood[detectedMood as keyof typeof Mood]\<close> is a property read on the enum object. It finds
  the eight own properties, and, as every property read on a plain object does, the
  properties the object inherits from \<^verbatim>\<open>Object.prototype\<close>; all of those hold truthy values
  (functions, and for \<^verbatim>\<open>__proto__\<close> the prototype object). Any other key gives \<^verbatim>\<open>undefined\<close>.
\<close>

fun Mood_of_name :: "string \<Rightarrow> Mood option" where
  "Mood_of_name k =
     (if k = ''NEUTRAL'' then Some NEUTRAL
      else if k = ''HAPPY'' then Some HAPPY
      else if k = ''SAD'' then Some SAD
      else if k = ''SURPRISED'' then Some SURPRISED
      else if k = ''THINKING'' then Some THINKING
      else if k = ''ANGRY'' then Some ANGRY
      else if k = ''EXCITED'' then Some EXCITED
      else if k = ''CONFUSED'' then Some CONFUSED
      else None)"

definition objectPrototypeNames :: "string list" where
  "objectPrototypeNames =
     [''constructor'', ''hasOwnProperty'', ''isPrototypeOf'', ''propertyIsEnumerable'',
      ''toLocaleString'', ''toString'', ''valueOf'', ''__proto__'',
      ''__defineGetter__'', ''__defineSetter__'', ''__lookupGetter__'', ''__lookupSetter__'']"

definition Mood_index :: "string \<Rightarrow> mood_value option" where
  "Mood_index k =
     (case Mood_of_name k of
        Some m \<Rightarrow> Some (Member m)
      | None \<Rightarrow> if k \<in> set objectPrototypeNames then Some (Inherited k) else None)"

text \<open>
  A function call of the remote side. \<open>fc_args\<close> is \<open>None\<close> when the call carries no \<^verbatim>\<open>args\<close>
  object (reading \<^verbatim>\<open>.mood\<close> of it then throws a TypeError), \<open>Some None\<close> when \<^verbatim>\<open>args.mood\<close> is
  missing, and \<open>Some (Some k)\<close> when it is the string \<open>k\<close> (the declared parameter type).
\<close>

record FunctionCall =
  fc_id :: string
  fc_name :: string
  fc_args :: "string option option"

text \<open>\<^verbatim>\<open>if (detectedMood && Mood[detectedMood]) setMood(Mood[detectedMood])\<close>; the empty string is falsy.\<close>

definition applyMood :: "app \<Rightarrow> string option \<Rightarrow> app" where
  "applyMood s detectedMood =
     (case detectedMood of
        None \<Rightarrow> s
      | Some k \<Rightarrow>
          if k = [] then s
          else (case Mood_index k of None \<Rightarrow> s | Some v \<Rightarrow> s\<lparr>mood := v\<rparr>))"

text \<open>
  The loop over \<^verbatim>\<open>functionCalls\<close>. The flag of the result tells that the loop threw. The
  continuation of \<^verbatim>\<open>sessionPromise.then\<close> runs with the session whose callback this is, so the
  tool response is sent. It is logged where the source registers it; the code sends it
  when the continuation runs, after the synchronous part of the handler, so the place of a
  \<open>SendToolResponse\<close> among the other effects of one handler is not that of the code
  (their number and their order among themselves are).
\<close>

fun functionCalls_loop :: "app \<Rightarrow> FunctionCall list \<Rightarrow> bool \<times> app" where
  "functionCalls_loop s [] = (False, s)"
| "functionCalls_loop s (fc # fcs) =
     (if fc_name fc = ''setMood'' then
        (case fc_args fc of
           None \<Rightarrow> (True, s)
         | Some detectedMood \<Rightarrow>
             functionCalls_loop
               (emit [SendToolResponse (fc_id fc) (fc_name fc)] (applyMood s detectedMood)) fcs)
      else functionCalls_loop s fcs)"

subsection \<open>onmessage: transcripts, playback, turn completion, interruption\<close>

text \<open>
  A message of the transport, flattened: \<open>functionCalls\<close> is \<^verbatim>\<open>message.toolCall?.functionCalls\<close>,
  the other fields are those of \<^verbatim>\<open>message.serverContent\<close> (absent or false when there is no
  server content). \<open>audioData\<close> is \<^verbatim>\<open>modelTurn.parts[0].inlineData.data\<close>; a transcription is
  its \<^verbatim>\<open>text || ''\<close>.
\<close>

record LiveServerMessage =
  functionCalls :: "FunctionCall list option"
  audioData :: "string option"
  outputTranscription :: "string option"
  inputTranscription :: "string option"
  turnComplete :: bool
  interrupted :: bool

text \<open>
  What happens to one chunk inside the \<^verbatim>\<open>try\<close> block, by the first statement that throws:
  \<^verbatim>\<open>decode\<close>; then, with \<open>n\<close> the length of the decoded bytes, \<^verbatim>\<open>decodeAudioData\<close> or the
  creation and connection of the source; then, with \<open>d\<close> the duration of the buffer,
  \<^verbatim>\<open>source.start\<close>; or nothing throws.
\<close>

datatype chunk = DecodeThrows | BufferThrows nat | StartThrows nat real | Playable nat real

record io =
  currentTime :: real
  dateNow :: int
  chunk :: chunk

definition truthy :: "string option \<Rightarrow> bool" where
  "truthy x = (case x of None \<Rightarrow> False | Some t \<Rightarrow> t \<noteq> [])"

definition Set_add :: "handle \<Rightarrow> handle list \<Rightarrow> handle list" where
  "Set_add h xs = (if h \<in> set xs then xs else xs @ [h])"

definition accumulate :: "variant \<Rightarrow> app \<Rightarrow> LiveServerMessage \<Rightarrow> app" where
  "accumulate v s m =
     (case v of
        App_tsx \<Rightarrow>
          (let s1 = (case outputTranscription m of
                       None \<Rightarrow> s
                     | Some t \<Rightarrow> s\<lparr>currentOutputTranscription := currentOutputTranscription s @ t\<rparr>)
           in case inputTranscription m of
                None \<Rightarrow> s1
              | Some t \<Rightarrow> s1\<lparr>currentInputTranscription := currentInputTranscription s1 @ t\<rparr>)
      | Part_000 \<Rightarrow>
          (case outputTranscription m of
             Some t \<Rightarrow> s\<lparr>currentOutputTranscription := currentOutputTranscription s @ t\<rparr>
           | None \<Rightarrow>
               (case inputTranscription m of
                  None \<Rightarrow> s
                | Some t \<Rightarrow> s\<lparr>currentInputTranscription := currentInputTranscription s @ t\<rparr>)))"

text \<open>Only the second file skips a chunk whose decoded bytes are empty (\<^verbatim>\<open>rawData.length > 0\<close>).\<close>

definition skipsEmpty :: "variant \<Rightarrow> nat \<Rightarrow> bool" where
  "skipsEmpty v n = (v = Part_000 \<and> n = 0)"

definition schedule :: "variant \<Rightarrow> io \<Rightarrow> app \<Rightarrow> app" where
  "schedule v e s =
     (case chunk e of
        DecodeThrows \<Rightarrow> emit [ConsoleError] s
      | BufferThrows n \<Rightarrow> if skipsEmpty v n then s else emit [ConsoleError] s
      | StartThrows n d \<Rightarrow>
          if skipsEmpty v n then s
          else emit [ConsoleError]
                 (s\<lparr>sourceCount := Suc (sourceCount s),
                    nextStartTimeRef := max (nextStartTimeRef s) (currentTime e)\<rparr>)
      | Playable n d \<Rightarrow>
          if skipsEmpty v n then s
          else (let h = sourceCount s; t = max (nextStartTimeRef s) (currentTime e)
                in (emit [SourceStart h t] s)
                     \<lparr>sourceCount := Suc h, nextStartTimeRef := t + d,
                      sourcesRef := Set_add h (sourcesRef s)\<rparr>))"

text \<open>The audio branch; \<open>None\<close> is the \<^verbatim>\<open>return\<close> taken when the output context is null.\<close>

definition playAudio :: "variant \<Rightarrow> io \<Rightarrow> app \<Rightarrow> app option" where
  "playAudio v e s =
     (case outputAudioContextRef s of
        None \<Rightarrow> None
      | Some c \<Rightarrow>
          (let s1 = (if v = Part_000 \<and> c \<noteq> Running
                     then (emit [OutputContextResume] s)\<lparr>outputAudioContextRef := Some Running\<rparr>
                     else s)
           in Some (schedule v e (s1\<lparr>state := SPEAKING\<rparr>))))"

definition onTurnComplete :: "io \<Rightarrow> app \<Rightarrow> app" where
  "onTurnComplete e s =
     (let output = trim (currentOutputTranscription s);
          s1 = (if output \<noteq> []
                then s\<lparr>transcripts := transcripts s @
                         [\<lparr>entry_role = Role_model, entry_text = output,
                           entry_timestamp = dateNow e, entry_mood = moodRef s\<rparr>]\<rparr>
                else s);
          s2 = s1\<lparr>currentInputTranscription := [], currentOutputTranscription := []\<rparr>
      in if sourcesRef s2 = [] then s2\<lparr>state := LISTENING\<rparr> else s2)"

definition onInterrupted :: "app \<Rightarrow> app" where
  "onInterrupted s = (stopAll s)\<lparr>nextStartTimeRef := 0, state := LISTENING\<rparr>"

definition onmessage_rest :: "io \<Rightarrow> app \<Rightarrow> LiveServerMessage \<Rightarrow> app" where
  "onmessage_rest e s m =
     (let s1 = (if turnComplete m then onTurnComplete e s else s)
      in if interrupted m then onInterrupted s1 else s1)"

definition runCalls :: "app \<Rightarrow> LiveServerMessage \<Rightarrow> bool \<times> app" where
  "runCalls s m = (case functionCalls m of None \<Rightarrow> (False, s) | Some fcs \<Rightarrow> functionCalls_loop s fcs)"

definition onmessage :: "variant \<Rightarrow> io \<Rightarrow> app \<Rightarrow> LiveServerMessage \<Rightarrow> app" where
  "onmessage v e s m =
     (if isClosingRef s then s
      else (case runCalls s m of
              (True, s1) \<Rightarrow> emit [UncaughtTypeError] s1
            | (False, s1) \<Rightarrow>
                (let s2 = accumulate v s1 m
                 in if truthy (audioData m) \<and> \<not> isClosingRef s2
                    then (case playAudio v e s2 of
                            None \<Rightarrow> s2
                          | Some s3 \<Rightarrow> onmessage_rest e s3 m)
                    else onmessage_rest e s2 m)))"

text \<open>\<^verbatim>\<open>source.onended\<close>, for the source \<open>h\<close>.\<close>

definition onended :: "app \<Rightarrow> handle \<Rightarrow> app" where
  "onended s h =
     (let s1 = s\<lparr>sourcesRef := removeAll h (sourcesRef s)\<rparr>
      in if sourcesRef s1 = [] \<and> \<not> isClosingRef s1 then s1\<lparr>state := LISTENING\<rparr> else s1)"

subsection \<open>onopen, onaudioprocess, onclose\<close>

definition onopen :: "app \<Rightarrow> app" where
  "onopen s =
     (let s1 = s\<lparr>state := LISTENING\<rparr>
      in if \<not> audioContextRef s1 then s1 else emit [CaptureConnected] s1)"

text \<open>
  The continuation \<^verbatim>\<open>sessionPromise.then((session) => ...)\<close> of the capture callback, for the blob
  \<^verbatim>\<open>createPcmBlob\<close> returned; it reads the closing flag again when it runs.
\<close>

definition sendRealtimeInput_then :: "app \<Rightarrow> string \<Rightarrow> app" where
  "sendRealtimeInput_then s pcmBlob =
     (if \<not> isClosingRef s then emit [SendRealtimeInput pcmBlob] s else s)"

definition onaudioprocess :: "app \<Rightarrow> string \<Rightarrow> app" where
  "onaudioprocess s pcmBlob = (if isClosingRef s then s else sendRealtimeInput_then s pcmBlob)"

text \<open>\<^verbatim>\<open>state\<close> in \<^verbatim>\<open>onclose\<close> is the constant of the render that built the callbacks.\<close>

definition onclose :: "app \<Rightarrow> app" where
  "onclose s =
     (if sessionState s \<noteq> SLEEP \<and> sessionState s \<noteq> ERROR then s\<lparr>state := IDLE\<rparr> else s)"

subsection \<open>stopConversation and startConversation\<close>

definition sleepTimeout :: "app \<Rightarrow> app" where
  "sleepTimeout s = s\<lparr>state := IDLE, mood := Member NEUTRAL\<rparr>"

definition stopConversation :: "bool \<Rightarrow> app \<Rightarrow> app" where
  "stopConversation forceSleep s =
     (let s1 = cleanupResources s
      in if forceSleep then emit [SetTimeout 5000] (s1\<lparr>state := SLEEP\<rparr>)
         else s1\<lparr>state := IDLE, mood := Member NEUTRAL\<rparr>)"

text \<open>
  What the start sequence meets: the credential, and the first step that throws, with the
  \<^verbatim>\<open>message\<close> of what it throws (constructing the input context; constructing the output
  context; resuming the two; \<^verbatim>\<open>getUserMedia\<close>; \<^verbatim>\<open>ai.live.connect\<close>), or none.
\<close>

datatype start_failure =
    InputContextThrows "string option"
  | OutputContextThrows "string option"
  | ResumeThrows "string option"
  | GetUserMediaThrows "string option"
  | ConnectThrows "string option"

record start_env =
  apiKey :: "string option"
  failure :: "start_failure option"

definition apiKeyMissing :: "variant \<Rightarrow> string option \<Rightarrow> bool" where
  "apiKeyMissing v k =
     (case k of None \<Rightarrow> True | Some key \<Rightarrow> key = [] \<or> (v = App_tsx \<and> key = ''undefined''))"

text \<open>The \<^verbatim>\<open>catch\<close> block of \<^verbatim>\<open>startConversation\<close>.\<close>

definition startFailed :: "variant \<Rightarrow> app \<Rightarrow> string option \<Rightarrow> app" where
  "startFailed v s msg =
     (let s1 = (case v of
                  App_tsx \<Rightarrow> s\<lparr>errorMessage := msg\<rparr>
                | Part_000 \<Rightarrow>
                    (emit [ConsoleError] s)
                      \<lparr>errorMessage := Some (''Failed to start Salin: '' @
                         (case msg of
                            None \<Rightarrow> ''Service is busy''
                          | Some t \<Rightarrow> if t = [] then ''Service is busy'' else t))\<rparr>)
      in cleanupResources (s1\<lparr>state := ERROR\<rparr>))"

text \<open>
  \<open>st\<close> is the value of \<^verbatim>\<open>state\<close> in the render that built this \<^verbatim>\<open>startConversation\<close>; the
  callbacks handed to \<^verbatim>\<open>connect\<close> keep it.
\<close>

definition startConversation :: "variant \<Rightarrow> start_env \<Rightarrow> AppState \<Rightarrow> app \<Rightarrow> app" where
  "startConversation v env st s =
     (let s1 = cleanupResources s;
          s2 = s1\<lparr>state := CONNECTING, errorMessage := None\<rparr>;
          s3 = (if v = Part_000 \<and> recognitionRef s2 \<noteq> None then emit [RecognitionStop] s2 else s2);
          held = s3\<lparr>audioContextRef := True, outputAudioContextRef := Some Running\<rparr>
      in if apiKeyMissing v (apiKey env) then startFailed v s3 (Some ''API Key is missing.'')
         else (case failure env of
                 Some (InputContextThrows msg) \<Rightarrow> startFailed v s3 msg
               | Some (OutputContextThrows msg) \<Rightarrow>
                   startFailed v (s3\<lparr>audioContextRef := True\<rparr>) msg
               | Some (ResumeThrows msg) \<Rightarrow> startFailed v held msg
               | Some (GetUserMediaThrows msg) \<Rightarrow> startFailed v held msg
               | Some (ConnectThrows msg) \<Rightarrow> startFailed v (held\<lparr>sessionState := st\<rparr>) msg
               | None \<Rightarrow> held\<lparr>sessionState := st, sessionRef := True\<rparr>))"

subsection \<open>The wake word\<close>

definition triggers :: "variant \<Rightarrow> string list" where
  "triggers v =
     (case v of
        App_tsx \<Rightarrow> [''salin'', ''hoy salin'', ''hey salin'']
      | Part_000 \<Rightarrow> [''salin'', ''hoy salin'', ''hey salin'', ''hi salin''])"

text \<open>
  A recognition event: \<^verbatim>\<open>resultIndex\<close>, and for each result its \<^verbatim>\<open>isFinal\<close> and the
  \<^verbatim>\<open>transcript\<close> of its first alternative.
\<close>

record SpeechRecognitionEvent =
  resultIndex :: nat
  results :: "(bool \<times> string) list"

definition isTrigger :: "variant \<Rightarrow> string \<Rightarrow> bool" where
  "isTrigger v transcript = list_ex (\<lambda>t. str_includes (toLowerCase transcript) t) (triggers v)"

text \<open>The loop of \<^verbatim>\<open>onresult\<close>: whether it reaches the branch that stops, starts and returns.\<close>

fun heard :: "variant \<Rightarrow> (bool \<times> string) list \<Rightarrow> bool" where
  "heard v [] = False"
| "heard v ((isFinal, transcript) # rs) =
     (if isFinal \<and> isTrigger v transcript then True else heard v rs)"

text \<open>
  The handlers of a recognizer; \<open>cap\<close> is the value of \<^verbatim>\<open>state\<close> they closed over, the constant
  of the render that built \<^verbatim>\<open>enableWakeWord\<close> (and the \<^verbatim>\<open>startConversation\<close> it calls).
\<close>

definition recognition_onresult ::
    "variant \<Rightarrow> start_env \<Rightarrow> AppState \<Rightarrow> app \<Rightarrow> SpeechRecognitionEvent \<Rightarrow> app" where
  "recognition_onresult v env cap s ev =
     (if heard v (drop (resultIndex ev) (results ev))
      then startConversation v env cap (emit [RecognitionStop] s)
      else s)"

definition recognition_onend :: "AppState \<Rightarrow> app \<Rightarrow> app" where
  "recognition_onend cap s = (if cap = STANDBY then emit [RecognitionStart] s else s)"

definition recognition_onerror :: "variant \<Rightarrow> AppState \<Rightarrow> app \<Rightarrow> app" where
  "recognition_onerror v cap s =
     (case v of
        App_tsx \<Rightarrow> s
      | Part_000 \<Rightarrow> if cap = STANDBY then emit [RecognitionStart] s else s)"

text \<open>\<open>supported\<close>: the browser has a \<^verbatim>\<open>SpeechRecognition\<close> constructor.\<close>

definition enableWakeWord :: "variant \<Rightarrow> bool \<Rightarrow> app \<Rightarrow> app" where
  "enableWakeWord v supported s =
     (if \<not> supported
      then (case v of
              App_tsx \<Rightarrow> s
            | Part_000 \<Rightarrow> s\<lparr>errorMessage := Some ''Wake word not supported in this browser.''\<rparr>)
      else (emit [RecognitionStart] s)\<lparr>recognitionRef := Some (state s), state := STANDBY\<rparr>)"

definition toggleStandby :: "variant \<Rightarrow> bool \<Rightarrow> app \<Rightarrow> app" where
  "toggleStandby v supported s =
     (if state s = STANDBY
      then (let s1 = (if recognitionRef s \<noteq> None then emit [RecognitionStop] s else s)
            in s1\<lparr>state := IDLE\<rparr>)
      else enableWakeWord v supported s)"

subsection \<open>Every operation of the component\<close>

datatype event =
    ClickStart start_env
  | ClickStop
  | ClickStandby bool
  | ClickClear
  | ClickDismiss
  | SleepTimeout
  | Rendered
  | Opened
  | Message io LiveServerMessage
  | TransportError error_event
  | Closed
  | Ended handle
  | AudioProcess string
  | PromiseThen string
  | CleanupBegin
  | CleanupCloseInput
  | CleanupCloseOutput
  | CleanupFinish
  | RecognitionResult start_env SpeechRecognitionEvent
  | RecognitionEnd
  | RecognitionError

text \<open>
  One handler per event. The buttons "start" and "Try Again" both call
  \<^verbatim>\<open>startConversation()\<close>; "CLEAR" calls \<^verbatim>\<open>setTranscripts([])\<close>; "Dismiss" calls
  \<^verbatim>\<open>setErrorMessage(null)\<close>. The recognizer's events reach the handlers of the recognizer that
  \<open>recognitionRef\<close> holds.
\<close>

definition step :: "variant \<Rightarrow> app \<Rightarrow> event \<Rightarrow> app" where
  "step v s ev =
     (case ev of
        ClickStart env \<Rightarrow> startConversation v env (state s) s
      | ClickStop \<Rightarrow> stopConversation False s
      | ClickStandby supported \<Rightarrow> toggleStandby v supported s
      | ClickClear \<Rightarrow> s\<lparr>transcripts := []\<rparr>
      | ClickDismiss \<Rightarrow> s\<lparr>errorMessage := None\<rparr>
      | SleepTimeout \<Rightarrow> sleepTimeout s
      | Rendered \<Rightarrow> syncMoodRef s
      | Opened \<Rightarrow> onopen s
      | Message e m \<Rightarrow> onmessage v e s m
      | TransportError err \<Rightarrow> onerror v s err
      | Closed \<Rightarrow> onclose s
      | Ended h \<Rightarrow> onended s h
      | AudioProcess pcmBlob \<Rightarrow> onaudioprocess s pcmBlob
      | PromiseThen pcmBlob \<Rightarrow> sendRealtimeInput_then s pcmBlob
      | CleanupBegin \<Rightarrow> cleanup_begin s
      | CleanupCloseInput \<Rightarrow> cleanup_closeInput s
      | CleanupCloseOutput \<Rightarrow> cleanup_closeOutput s
      | CleanupFinish \<Rightarrow> cleanup_finish s
      | RecognitionResult env r \<Rightarrow>
          (case recognitionRef s of None \<Rightarrow> s | Some cap \<Rightarrow> recognition_onresult v env cap s r)
      | RecognitionEnd \<Rightarrow>
          (case recognitionRef s of None \<Rightarrow> s | Some cap \<Rightarrow> recognition_onend cap s)
      | RecognitionError \<Rightarrow>
          (case recognitionRef s of None \<Rightarrow> s | Some cap \<Rightarrow> recognition_onerror v cap s))"

text \<open>A run: the events of a list, in order.\<close>

fun run :: "variant \<Rightarrow> app \<Rightarrow> event list \<Rightarrow> app" where
  "run v s [] = s"
| "run v s (ev # evs) = run v (step v s ev) evs"

subsection \<open>Vocabulary of the statements\<close>

text \<open>All that \<^verbatim>\<open>cleanupResources\<close> releases is released.\<close>

definition tornDown :: "app \<Rightarrow> bool" where
  "tornDown s = (\<not> sessionRef s \<and> \<not> audioContextRef s \<and> outputAudioContextRef s = None
     \<and> sourcesRef s = [] \<and> \<not> isClosingRef s)"

text \<open>Every \<^verbatim>\<open>setMood\<close> call of the message carries an \<^verbatim>\<open>args\<close> object: the loop does not throw.\<close>

definition wellFormed :: "LiveServerMessage \<Rightarrow> bool" where
  "wellFormed m =
     (case functionCalls m of
        None \<Rightarrow> True
      | Some fcs \<Rightarrow> list_all (\<lambda>fc. fc_name fc \<noteq> ''setMood'' \<or> fc_args fc \<noteq> None) fcs)"

text \<open>A session is open: it is not being torn down and it has its output context.\<close>

definition openSession :: "app \<Rightarrow> bool" where
  "openSession s = (\<not> isClosingRef s \<and> outputAudioContextRef s \<noteq> None)"

definition isResponse :: "effect \<Rightarrow> bool" where
  "isResponse e = (case e of SendToolResponse i n \<Rightarrow> True | _ \<Rightarrow> False)"

text \<open>
  From \<open>s\<close> to \<open>x\<close> the playback bookkeeping has only grown: no handle left the set, the
  effects were extended, and every source started since is in the set.
\<close>

definition grows :: "app \<Rightarrow> app \<Rightarrow> bool" where
  "grows s x = (set (sourcesRef s) \<subseteq> set (sourcesRef x)
     \<and> (\<exists>es. effects x = effects s @ es
           \<and> (\<forall>h t. SourceStart h t \<in> set es \<longrightarrow> h \<in> set (sourcesRef x))))"

text \<open>
  The state in which \<^verbatim>\<open>onmessage\<close> reaches its last two blocks (turn completion and
  interruption), when it reaches them.
\<close>

definition beforeRest :: "variant \<Rightarrow> io \<Rightarrow> app \<Rightarrow> LiveServerMessage \<Rightarrow> app" where
  "beforeRest v e s m =
     (let s2 = accumulate v (snd (runCalls s m)) m
      in if truthy (audioData m) then the (playAudio v e s2) else s2)"

subsection \<open>Vocabulary of the playback schedule\<close>

text \<open>The times at which sources were started, in order.\<close>

fun startTimes :: "effect list \<Rightarrow> real list" where
  "startTimes [] = []"
| "startTimes (SourceStart h t # es) = t # startTimes es"
| "startTimes (e # es) = startTimes es"

text \<open>
  The schedule as the specification words it, for chunks given by the device time at which
  they are scheduled and their duration: each starts at the later of cursor and clock, and
  the cursor moves to that start plus the duration.
\<close>

fun planned :: "real \<Rightarrow> (real \<times> real) list \<Rightarrow> real list" where
  "planned c [] = []"
| "planned c ((now, d) # r) = max c now # planned (max c now + d) r"

fun cursorAfter :: "real \<Rightarrow> (real \<times> real) list \<Rightarrow> real" where
  "cursorAfter c [] = c"
| "cursorAfter c ((now, d) # r) = cursorAfter (max c now + d) r"

text \<open>Every chunk is scheduled before the clock has passed the cursor.\<close>

fun punctual :: "real \<Rightarrow> (real \<times> real) list \<Rightarrow> bool" where
  "punctual c [] = True"
| "punctual c ((now, d) # r) = (now \<le> c \<and> punctual (c + d) r)"

text \<open>The start times \<open>t\<close>, \<open>t + d1\<close>, \<open>t + d1 + d2\<close>, ...\<close>

fun backToBack :: "real \<Rightarrow> real list \<Rightarrow> real list" where
  "backToBack t [] = []"
| "backToBack t (d # ds) = t # backToBack (t + d) ds"

definition duration :: "io \<Rightarrow> real" where
  "duration e = (case chunk e of Playable n d \<Rightarrow> d | StartThrows n d \<Rightarrow> d | _ \<Rightarrow> 0)"

definition timing :: "io \<times> LiveServerMessage \<Rightarrow> real \<times> real" where
  "timing em = (currentTime (fst em), duration (fst em))"

definition plays :: "variant \<Rightarrow> io \<times> LiveServerMessage \<Rightarrow> bool" where
  "plays v em =
     (truthy (audioData (snd em)) \<and> \<not> interrupted (snd em) \<and> wellFormed (snd em)
      \<and> (case chunk (fst em) of Playable n d \<Rightarrow> \<not> skipsEmpty v n \<and> 0 \<le> d | _ \<Rightarrow> False))"

definition messages :: "(io \<times> LiveServerMessage) list \<Rightarrow> event list" where
  "messages ems = map (\<lambda>em. Message (fst em) (snd em)) ems"

text \<open>The event is not CLEAR.\<close>

definition keepsLog :: "event \<Rightarrow> bool" where
  "keepsLog ev = (case ev of ClickClear \<Rightarrow> False | _ \<Rightarrow> True)"

text \<open>
  The event is not a message with the "interrupted" signal, and the buffer of a message has
  no negative duration.
\<close>

definition keepsCursor :: "event \<Rightarrow> bool" where
  "keepsCursor ev = (case ev of Message e m \<Rightarrow> \<not> interrupted m \<and> 0 \<le> duration e | _ \<Rightarrow> True)"

subsection \<open>Vocabulary of dropped chunks\<close>

text \<open>Some statement of the \<^verbatim>\<open>try\<close> block throws.\<close>

definition throws :: "chunk \<Rightarrow> bool" where
  "throws c = (case c of Playable n d \<Rightarrow> False | _ \<Rightarrow> True)"

text \<open>The decoded bytes are empty.\<close>

definition emptyBytes :: "chunk \<Rightarrow> bool" where
  "emptyBytes c =
     (case c of DecodeThrows \<Rightarrow> False | BufferThrows n \<Rightarrow> n = 0
      | StartThrows n d \<Rightarrow> n = 0 | Playable n d \<Rightarrow> n = 0)"

text \<open>The session is as it was, and the playback set has gained nothing.\<close>

definition sessionKept :: "app \<Rightarrow> app \<Rightarrow> bool" where
  "sessionKept s s' =
     (sessionRef s' = sessionRef s \<and> audioContextRef s' = audioContextRef s
      \<and> openSession s' \<and> errorMessage s' = errorMessage s
      \<and> (state s' = SPEAKING \<or> state s' = LISTENING)
      \<and> startTimes (performed s s') = [] \<and> set (sourcesRef s') \<subseteq> set (sourcesRef s))"

subsection \<open>Concrete inputs\<close>

text \<open>A session that has connected and opened, and some messages.\<close>

definition listening :: "variant \<Rightarrow> app" where
  "listening v =
     onopen (startConversation v \<lparr>apiKey = Some ''key'', failure = None\<rparr> IDLE initial)"

definition silent :: LiveServerMessage where
  "silent = \<lparr>functionCalls = None, audioData = None, outputTranscription = None,
     inputTranscription = None, turnComplete = False, interrupted = False\<rparr>"

definition audioChunk :: LiveServerMessage where
  "audioChunk = silent\<lparr>audioData := Some ''UklGRg==''\<rparr>"

definition clockAt :: "real \<Rightarrow> real \<Rightarrow> io" where
  "clockAt now d = \<lparr>currentTime = now, dateNow = 1700000000000, chunk = Playable 4800 d\<rparr>"

text \<open>Two chunks of one second each, both arriving at device time 2.\<close>

definition playing :: app where
  "playing = run Part_000 (listening Part_000)
     [Message (clockAt 2 1) audioChunk, Message (clockAt 2 1) audioChunk]"

definition setMoodCall :: "string \<Rightarrow> string option option \<Rightarrow> LiveServerMessage" where
  "setMoodCall i a =
     silent\<lparr>functionCalls := Some [\<lparr>fc_id = i, fc_name = ''setMood'', fc_args = a\<rparr>]\<rparr>"

definition withChunk :: "chunk \<Rightarrow> io" where
  "withChunk c = \<lparr>currentTime = 3, dateNow = 1700000000000, chunk = c\<rparr>"

definition spoken :: app where
  "spoken = onmessage App_tsx (clockAt 3 1) (listening App_tsx)
     (silent\<lparr>outputTranscription := Some ''Salamat po'', turnComplete := True\<rparr>)"

definition threeChunks :: "(io \<times> LiveServerMessage) list" where
  "threeChunks =
     [(clockAt 2 1, audioChunk), (clockAt (5/2) 2, audioChunk), (clockAt 4 (1/2), audioChunk)]"



definition standby :: "variant \<Rightarrow> app" where
  "standby v = step v initial (ClickStandby True)"

definition withKey :: start_env where
  "withKey = \<lparr>apiKey = Some ''key'', failure = None\<rparr>"

definition finalResult :: "string \<Rightarrow> SpeechRecognitionEvent" where
  "finalResult transcript = \<lparr>resultIndex = 0, results = [(True, transcript)]\<rparr>"

section \<open>Properties\<close>

subsection \<open>Effects and teardown\<close>

lemma effects_emit [simp]: "effects (emit es s) = effects s @ es"
  by (simp add: emit_def)

lemma emit_frame [simp]:
  "state (emit es s) = state s" "mood (emit es s) = mood s"
  "transcripts (emit es s) = transcripts s" "errorMessage (emit es s) = errorMessage s"
  "moodRef (emit es s) = moodRef s" "sessionRef (emit es s) = sessionRef s"
  "audioContextRef (emit es s) = audioContextRef s"
  "outputAudioContextRef (emit es s) = outputAudioContextRef s"
  "sourcesRef (emit es s) = sourcesRef s" "nextStartTimeRef (emit es s) = nextStartTimeRef s"
  "currentInputTranscription (emit es s) = currentInputTranscription s"
  "currentOutputTranscription (emit es s) = currentOutputTranscription s"
  "recognitionRef (emit es s) = recognitionRef s" "isClosingRef (emit es s) = isClosingRef s"
  "sessionState (emit es s) = sessionState s" "sourceCount (emit es s) = sourceCount s"
  by (simp_all add: emit_def)

lemma performed_self: "performed s s = []" by (simp add: performed_def)

lemma cleanup_tornDown: "tornDown (cleanupResources s)"
  by (simp add: tornDown_def cleanupResources_def cleanup_finish_def cleanup_closeOutput_def
      cleanup_closeInput_def cleanup_begin_def stopAll_def emit_def Let_def)

lemma cleanup_effects:
  "effects (cleanupResources s) = effects s
     @ (if sessionRef s then [SessionClose] else [])
     @ (if audioContextRef s then [InputContextClose] else [])
     @ (if outputAudioContextRef s \<noteq> None then [OutputContextClose] else [])
     @ map SourceStop (sourcesRef s)"
  by (simp add: cleanupResources_def cleanup_finish_def cleanup_closeOutput_def
      cleanup_closeInput_def cleanup_begin_def stopAll_def emit_def Let_def)

lemma cleanup_frame:
  "state (cleanupResources s) = state s" "errorMessage (cleanupResources s) = errorMessage s"
  "transcripts (cleanupResources s) = transcripts s" "mood (cleanupResources s) = mood s"
  "nextStartTimeRef (cleanupResources s) = nextStartTimeRef s"
  "recognitionRef (cleanupResources s) = recognitionRef s"
  by (simp_all add: cleanupResources_def cleanup_finish_def cleanup_closeOutput_def
      cleanup_closeInput_def cleanup_begin_def stopAll_def emit_def Let_def)

lemma listening_eval:
  "listening v = initial\<lparr>state := LISTENING, audioContextRef := True,
     outputAudioContextRef := Some Running, sessionRef := True, effects := [CaptureConnected]\<rparr>"
  by (cases v)
     (simp_all add: listening_def onopen_def startConversation_def apiKeyMissing_def
        cleanupResources_def cleanup_finish_def cleanup_closeOutput_def cleanup_closeInput_def
        cleanup_begin_def stopAll_def emit_def initial_def Let_def)

lemma playing_eval:
  "playing
     = initial\<lparr>state := SPEAKING, audioContextRef := True,
         outputAudioContextRef := Some Running, sessionRef := True,
         sourcesRef := [0, 1], nextStartTimeRef := 4, sourceCount := 2,
         effects := [CaptureConnected, SourceStart 0 2, SourceStart 1 3]\<rparr>"
  by (simp add: playing_def listening_eval step_def onmessage_def runCalls_def accumulate_def playAudio_def
      schedule_def skipsEmpty_def Set_add_def onmessage_rest_def truthy_def audioChunk_def
      silent_def clockAt_def emit_def initial_def Let_def)

text \<open>
  \<^bold>\<open>C1\<close> (as amended). On every transport error the phase becomes \<open>ERROR\<close> and the session is
  torn down (the transport and both contexts are closed when held, every scheduled source
  is stopped, the set is empty, the flag is clear again). The message is classified only in
  the second file: the overload text when the error's message contains "503" or
  "unavailable", the generic text otherwise. In \<^verbatim>\<open>src/App.tsx\<close> the message is one fixed
  text for every error.
\<close>

theorem onerror_reports:
  "state (onerror v s err) = ERROR \<and> tornDown (onerror v s err)
   \<and> performed s (onerror v s err) = ConsoleError
        # (if sessionRef s then [SessionClose] else [])
        @ (if audioContextRef s then [InputContextClose] else [])
        @ (if outputAudioContextRef s \<noteq> None then [OutputContextClose] else [])
        @ map SourceStop (sourcesRef s)
   \<and> errorMessage (onerror v s err) = Some
        (case v of
           App_tsx \<Rightarrow> networkText
         | Part_000 \<Rightarrow> if mentions err ''503'' \<or> mentions err ''unavailable''
                        then overloadedText else genericText)"
  by (cases v) (simp_all add: onerror_def Let_def cleanup_tornDown cleanup_frame cleanup_effects performed_def)


theorem onerror_reports_witness:
  "state (onerror Part_000 playing (Some ''503 Service Unavailable'')) = ERROR
   \<and> tornDown (onerror Part_000 playing (Some ''503 Service Unavailable''))
   \<and> performed playing (onerror Part_000 playing (Some ''503 Service Unavailable''))
       = [ConsoleError, SessionClose, InputContextClose, OutputContextClose,
          SourceStop 0, SourceStop 1]
   \<and> errorMessage (onerror Part_000 playing (Some ''503 Service Unavailable''))
       = Some ''Salin is currently overloaded. Please wait a moment and try again.''
   \<and> errorMessage (onerror Part_000 playing (Some ''socket hang up''))
       = Some ''Connection encountered an issue.''
   \<and> errorMessage (onerror Part_000 playing None) = Some ''Connection encountered an issue.''"
  using onerror_reports [of Part_000 playing "Some ''503 Service Unavailable''"]
    onerror_reports [of Part_000 playing "Some ''socket hang up''"]
    onerror_reports [of Part_000 playing None]
  by (simp add: playing_eval mentions_def overloadedText_def genericText_def initial_def)

text \<open>
  The sentence of the specification, as it stands, fails in \<^verbatim>\<open>src/App.tsx\<close>: an error whose
  message contains "503" and one that contains neither pattern get the same text.
\<close>

theorem onerror_App_tsx_same_text:
  "mentions (Some ''503 Service Unavailable'') ''503''
   \<and> \<not> mentions (Some ''socket hang up'') ''503''
   \<and> \<not> mentions (Some ''socket hang up'') ''unavailable''
   \<and> errorMessage (onerror App_tsx (listening App_tsx) (Some ''503 Service Unavailable''))
       = errorMessage (onerror App_tsx (listening App_tsx) (Some ''socket hang up''))
   \<and> errorMessage (onerror App_tsx (listening App_tsx) (Some ''503 Service Unavailable''))
       = Some ''Network stability issues. Reconnecting...''"
  by (simp add: mentions_def onerror_def Let_def cleanup_frame networkText_def)

subsection \<open>The message handler\<close>

lemma applyMood_frame [simp]:
  "state (applyMood s d) = state s" "transcripts (applyMood s d) = transcripts s"
  "errorMessage (applyMood s d) = errorMessage s" "moodRef (applyMood s d) = moodRef s"
  "sessionRef (applyMood s d) = sessionRef s" "audioContextRef (applyMood s d) = audioContextRef s"
  "outputAudioContextRef (applyMood s d) = outputAudioContextRef s"
  "sourcesRef (applyMood s d) = sourcesRef s" "nextStartTimeRef (applyMood s d) = nextStartTimeRef s"
  "currentInputTranscription (applyMood s d) = currentInputTranscription s"
  "currentOutputTranscription (applyMood s d) = currentOutputTranscription s"
  "recognitionRef (applyMood s d) = recognitionRef s" "isClosingRef (applyMood s d) = isClosingRef s"
  "sessionState (applyMood s d) = sessionState s" "sourceCount (applyMood s d) = sourceCount s"
  "effects (applyMood s d) = effects s"
  by (simp_all add: applyMood_def split: option.splits)

lemma loop_frame:
  "state (snd (functionCalls_loop s fcs)) = state s
   \<and> transcripts (snd (functionCalls_loop s fcs)) = transcripts s
   \<and> errorMessage (snd (functionCalls_loop s fcs)) = errorMessage s
   \<and> moodRef (snd (functionCalls_loop s fcs)) = moodRef s
   \<and> sessionRef (snd (functionCalls_loop s fcs)) = sessionRef s
   \<and> audioContextRef (snd (functionCalls_loop s fcs)) = audioContextRef s
   \<and> outputAudioContextRef (snd (functionCalls_loop s fcs)) = outputAudioContextRef s
   \<and> sourcesRef (snd (functionCalls_loop s fcs)) = sourcesRef s
   \<and> nextStartTimeRef (snd (functionCalls_loop s fcs)) = nextStartTimeRef s
   \<and> currentInputTranscription (snd (functionCalls_loop s fcs)) = currentInputTranscription s
   \<and> currentOutputTranscription (snd (functionCalls_loop s fcs)) = currentOutputTranscription s
   \<and> recognitionRef (snd (functionCalls_loop s fcs)) = recognitionRef s
   \<and> isClosingRef (snd (functionCalls_loop s fcs)) = isClosingRef s
   \<and> sessionState (snd (functionCalls_loop s fcs)) = sessionState s
   \<and> sourceCount (snd (functionCalls_loop s fcs)) = sourceCount s"
  by (induction s fcs rule: functionCalls_loop.induct) (simp_all split: option.splits)

lemma loop_effects:
  "\<exists>es. effects (snd (functionCalls_loop s fcs)) = effects s @ es \<and> list_all isResponse es"
proof (induction s fcs rule: functionCalls_loop.induct)
  case (1 s)
  show ?case by simp
next
  case (2 s fc fcs)
  show ?case
  proof (cases "fc_name fc = ''setMood''")
    case False
    then show ?thesis using 2 by simp
  next
    case True
    show ?thesis
    proof (cases "fc_args fc")
      case None
      then show ?thesis using True by simp
    next
      case (Some d)
      let ?s1 = "emit [SendToolResponse (fc_id fc) (fc_name fc)] (applyMood s d)"
      obtain es where es: "effects (snd (functionCalls_loop ?s1 fcs)) = effects ?s1 @ es"
        "list_all isResponse es"
        using 2(1) [OF True Some] by blast
      have "effects (snd (functionCalls_loop s (fc # fcs)))
          = effects s @ (SendToolResponse (fc_id fc) (fc_name fc) # es)"
        using True Some es(1) by simp
      moreover have "list_all isResponse (SendToolResponse (fc_id fc) (fc_name fc) # es)"
        using es(2) by (simp add: isResponse_def)
      ultimately show ?thesis by blast
    qed
  qed
qed

lemma loop_ok:
  "list_all (\<lambda>fc. fc_name fc \<noteq> ''setMood'' \<or> fc_args fc \<noteq> None) fcs
     \<Longrightarrow> \<not> fst (functionCalls_loop s fcs)"
  by (induction s fcs rule: functionCalls_loop.induct) (auto split: option.splits)

lemma runCalls_ok: "wellFormed m \<Longrightarrow> runCalls s m = (False, snd (runCalls s m))"
proof -
  assume "wellFormed m"
  then have "\<not> fst (runCalls s m)"
    by (cases "functionCalls m") (simp_all add: wellFormed_def runCalls_def loop_ok)
  then show ?thesis by (cases "runCalls s m") simp
qed

lemma runCalls_frame [simp]:
  "state (snd (runCalls s m)) = state s"
  "transcripts (snd (runCalls s m)) = transcripts s"
  "errorMessage (snd (runCalls s m)) = errorMessage s"
  "moodRef (snd (runCalls s m)) = moodRef s"
  "sessionRef (snd (runCalls s m)) = sessionRef s"
  "audioContextRef (snd (runCalls s m)) = audioContextRef s"
  "outputAudioContextRef (snd (runCalls s m)) = outputAudioContextRef s"
  "sourcesRef (snd (runCalls s m)) = sourcesRef s"
  "nextStartTimeRef (snd (runCalls s m)) = nextStartTimeRef s"
  "currentInputTranscription (snd (runCalls s m)) = currentInputTranscription s"
  "currentOutputTranscription (snd (runCalls s m)) = currentOutputTranscription s"
  "recognitionRef (snd (runCalls s m)) = recognitionRef s"
  "isClosingRef (snd (runCalls s m)) = isClosingRef s"
  "sessionState (snd (runCalls s m)) = sessionState s"
  "sourceCount (snd (runCalls s m)) = sourceCount s"
  by (cases "functionCalls m"; simp add: runCalls_def loop_frame)+

lemma runCalls_effects:
  "\<exists>es. effects (snd (runCalls s m)) = effects s @ es \<and> list_all isResponse es"
  by (cases "functionCalls m") (simp_all add: runCalls_def loop_effects)

lemma accumulate_frame [simp]:
  "sourcesRef (accumulate v s m) = sourcesRef s" "effects (accumulate v s m) = effects s"
  "isClosingRef (accumulate v s m) = isClosingRef s"
  "outputAudioContextRef (accumulate v s m) = outputAudioContextRef s"
  "transcripts (accumulate v s m) = transcripts s" "moodRef (accumulate v s m) = moodRef s"
  "nextStartTimeRef (accumulate v s m) = nextStartTimeRef s"
  "sourceCount (accumulate v s m) = sourceCount s"
  by (cases v; simp add: accumulate_def Let_def split: option.splits)+

lemma accumulate_frame2 [simp]:
  "sessionRef (accumulate v s m) = sessionRef s" "audioContextRef (accumulate v s m) = audioContextRef s"
  "errorMessage (accumulate v s m) = errorMessage s" "state (accumulate v s m) = state s"
  "mood (accumulate v s m) = mood s"
  by (cases v; simp add: accumulate_def Let_def split: option.splits)+

lemma accumulate_output [simp]:
  "currentOutputTranscription (accumulate v s m)
     = currentOutputTranscription s @ (case outputTranscription m of None \<Rightarrow> [] | Some t \<Rightarrow> t)"
  by (cases v; simp add: accumulate_def Let_def split: option.splits)

lemma grows_refl: "grows s s" by (simp add: grows_def)

lemma grows_trans: "grows a b \<Longrightarrow> grows b c \<Longrightarrow> grows a c"
proof -
  assume ab: "grows a b" and bc: "grows b c"
  obtain es where es: "effects b = effects a @ es"
    "\<forall>h t. SourceStart h t \<in> set es \<longrightarrow> h \<in> set (sourcesRef b)"
    using ab by (auto simp add: grows_def)
  obtain fs where fs: "effects c = effects b @ fs"
    "\<forall>h t. SourceStart h t \<in> set fs \<longrightarrow> h \<in> set (sourcesRef c)"
    using bc by (auto simp add: grows_def)
  have sub: "set (sourcesRef a) \<subseteq> set (sourcesRef b)" "set (sourcesRef b) \<subseteq> set (sourcesRef c)"
    using ab bc by (simp_all add: grows_def)
  have "effects c = effects a @ (es @ fs)" using es(1) fs(1) by simp
  moreover have "\<forall>h t. SourceStart h t \<in> set (es @ fs) \<longrightarrow> h \<in> set (sourcesRef c)"
    using es(2) fs(2) sub(2) by auto
  ultimately show ?thesis using sub unfolding grows_def by blast
qed

lemma grows_schedule: "grows s (schedule v e s)"
  by (cases "chunk e") (auto simp add: grows_def schedule_def Set_add_def Let_def emit_def)

lemma grows_playAudio: "playAudio v e s = Some x \<Longrightarrow> grows s x"
proof -
  assume a: "playAudio v e s = Some x"
  then obtain c where c: "outputAudioContextRef s = Some c"
    by (auto simp add: playAudio_def split: option.splits)
  define s1 where "s1 = (if v = Part_000 \<and> c \<noteq> Running
                     then (emit [OutputContextResume] s)\<lparr>outputAudioContextRef := Some Running\<rparr>
                     else s)"
  have x: "x = schedule v e (s1\<lparr>state := SPEAKING\<rparr>)"
    using a c by (simp add: playAudio_def s1_def Let_def)
  have "grows s (s1\<lparr>state := SPEAKING\<rparr>)" by (simp add: grows_def s1_def)
  then show ?thesis using grows_schedule grows_trans x by blast
qed

lemma grows_onTurnComplete: "grows s (onTurnComplete e s)"
  by (simp add: grows_def onTurnComplete_def Let_def)

lemma grows_accumulate: "grows s (accumulate v s m)"
  by (simp add: grows_def)

lemma onInterrupted_after:
  assumes "grows s x"
  shows "sourcesRef (onInterrupted x) = [] \<and> nextStartTimeRef (onInterrupted x) = 0
     \<and> state (onInterrupted x) = LISTENING
     \<and> (\<forall>h \<in> set (sourcesRef s). SourceStop h \<in> set (performed s (onInterrupted x)))
     \<and> (\<forall>h t. SourceStart h t \<in> set (performed s (onInterrupted x))
          \<longrightarrow> SourceStop h \<in> set (performed s (onInterrupted x)))"
proof -
  obtain es where es: "effects x = effects s @ es"
     "\<forall>h t. SourceStart h t \<in> set es \<longrightarrow> h \<in> set (sourcesRef x)"
    using assms by (auto simp add: grows_def)
  have p: "performed s (onInterrupted x) = es @ map SourceStop (sourcesRef x)"
    by (simp add: performed_def onInterrupted_def stopAll_def es(1))
  have sub: "set (sourcesRef s) \<subseteq> set (sourcesRef x)" using assms by (simp add: grows_def)
  show ?thesis using es(2) sub by (auto simp add: p) (simp_all add: onInterrupted_def stopAll_def)
qed

lemma onmessage_reaches_rest:
  assumes "\<not> isClosingRef s" and "wellFormed m"
    and "truthy (audioData m) \<longrightarrow> outputAudioContextRef s \<noteq> None"
  shows "onmessage v e s m = onmessage_rest e (beforeRest v e s m) m"
proof -
  let ?s2 = "accumulate v (snd (runCalls s m)) m"
  have rc: "runCalls s m = (False, snd (runCalls s m))" using assms(2) by (rule runCalls_ok)
  have unf: "onmessage v e s m =
      (if truthy (audioData m) \<and> \<not> isClosingRef ?s2
       then (case playAudio v e ?s2 of None \<Rightarrow> ?s2 | Some s3 \<Rightarrow> onmessage_rest e s3 m)
       else onmessage_rest e ?s2 m)"
    using assms(1) by (subst onmessage_def, subst rc) (simp add: Let_def)
  show ?thesis
  proof (cases "truthy (audioData m)")
    case False
    then show ?thesis by (simp add: unf beforeRest_def Let_def)
  next
    case True
    then obtain c where "outputAudioContextRef ?s2 = Some c" using assms(3) by auto
    then obtain x where x: "playAudio v e ?s2 = Some x" by (simp add: playAudio_def Let_def)
    then show ?thesis using assms(1) True by (simp add: unf beforeRest_def Let_def)
  qed
qed

lemma grows_beforeRest:
  assumes "truthy (audioData m) \<longrightarrow> outputAudioContextRef s \<noteq> None"
  shows "grows s (beforeRest v e s m)"
proof -
  let ?s1 = "snd (runCalls s m)"
  let ?s2 = "accumulate v ?s1 m"
  obtain es where es: "effects ?s1 = effects s @ es" "list_all isResponse es"
    using runCalls_effects by blast
  have "\<forall>h t. SourceStart h t \<notin> set es"
    using es(2) by (auto simp add: list_all_iff isResponse_def)
  then have 1: "grows s ?s1" using es(1) by (simp add: grows_def)
  have 2: "grows ?s1 ?s2" by (rule grows_accumulate)
  have 3: "grows ?s2 (beforeRest v e s m)"
  proof (cases "truthy (audioData m)")
    case False
    then show ?thesis by (simp add: beforeRest_def Let_def grows_refl)
  next
    case True
    then obtain c where "outputAudioContextRef ?s2 = Some c" using assms by auto
    then obtain x where x: "playAudio v e ?s2 = Some x" by (simp add: playAudio_def Let_def)
    then show ?thesis using True grows_playAudio [OF x] by (simp add: beforeRest_def Let_def)
  qed
  show ?thesis using 1 2 3 grows_trans by blast
qed

lemma schedule_frame [simp]:
  "transcripts (schedule v e s) = transcripts s" "moodRef (schedule v e s) = moodRef s"
  "currentInputTranscription (schedule v e s) = currentInputTranscription s"
  "currentOutputTranscription (schedule v e s) = currentOutputTranscription s"
  "isClosingRef (schedule v e s) = isClosingRef s" "state (schedule v e s) = state s"
  "outputAudioContextRef (schedule v e s) = outputAudioContextRef s"
  by (cases "chunk e"; simp add: schedule_def Let_def)+

lemma playAudio_frame:
  assumes "playAudio v e s = Some x"
  shows "transcripts x = transcripts s" "moodRef x = moodRef s"
    "currentInputTranscription x = currentInputTranscription s"
    "currentOutputTranscription x = currentOutputTranscription s"
    "isClosingRef x = isClosingRef s" "outputAudioContextRef x \<noteq> None"
  using assms by (auto simp add: playAudio_def Let_def split: option.splits if_splits)


lemma onInterrupted_frame [simp]:
  "transcripts (onInterrupted s) = transcripts s"
  "currentInputTranscription (onInterrupted s) = currentInputTranscription s"
  "currentOutputTranscription (onInterrupted s) = currentOutputTranscription s"
  "state (onInterrupted s) = LISTENING" "sourcesRef (onInterrupted s) = []"
  by (simp_all add: onInterrupted_def stopAll_def)

text \<open>
  \<^bold>\<open>C2\<close>. An "interrupted" signal handled in an open session, whatever the number of
  scheduled sources: every handle of the set is stopped (those scheduled before the
  message, and the one its own audio chunk may have added), the set is empty, the cursor is
  0 and the phase is \<open>LISTENING\<close>.
\<close>

theorem interrupted_clears_playback:
  assumes "\<not> isClosingRef s" and "wellFormed m"
    and "truthy (audioData m) \<longrightarrow> outputAudioContextRef s \<noteq> None"
    and "interrupted m"
  shows "sourcesRef (onmessage v e s m) = [] \<and> nextStartTimeRef (onmessage v e s m) = 0
     \<and> state (onmessage v e s m) = LISTENING
     \<and> (\<forall>h \<in> set (sourcesRef s). SourceStop h \<in> set (performed s (onmessage v e s m)))
     \<and> (\<forall>h t. SourceStart h t \<in> set (performed s (onmessage v e s m))
          \<longrightarrow> SourceStop h \<in> set (performed s (onmessage v e s m)))"
proof -
  define x where "x = beforeRest v e s m"
  have r: "onmessage v e s m = onmessage_rest e x m"
    unfolding x_def using assms(1-3) by (rule onmessage_reaches_rest)
  have g: "grows s x" unfolding x_def using assms(3) by (rule grows_beforeRest)
  define y where "y = (if turnComplete m then onTurnComplete e x else x)"
  have "grows s y" using g grows_onTurnComplete grows_trans by (auto simp add: y_def)
  moreover have "onmessage v e s m = onInterrupted y"
    using r assms(4) by (simp add: onmessage_rest_def y_def Let_def)
  ultimately show ?thesis using onInterrupted_after by simp
qed


theorem interrupted_clears_playback_witness:
  "sourcesRef playing = [0, 1]
   \<and> sourcesRef (onmessage Part_000 (clockAt 3 1) playing (silent\<lparr>interrupted := True\<rparr>)) = []
   \<and> nextStartTimeRef (onmessage Part_000 (clockAt 3 1) playing (silent\<lparr>interrupted := True\<rparr>)) = 0
   \<and> state (onmessage Part_000 (clockAt 3 1) playing (silent\<lparr>interrupted := True\<rparr>)) = LISTENING
   \<and> SourceStop 0 \<in> set (performed playing
         (onmessage Part_000 (clockAt 3 1) playing (silent\<lparr>interrupted := True\<rparr>)))
   \<and> SourceStop 1 \<in> set (performed playing
         (onmessage Part_000 (clockAt 3 1) playing (silent\<lparr>interrupted := True\<rparr>)))"
  using interrupted_clears_playback
    [of playing "silent\<lparr>interrupted := True\<rparr>" Part_000 "clockAt 3 1"]
  by (simp add: playing_eval wellFormed_def silent_def truthy_def initial_def)

lemma schedule_mood [simp]: "mood (schedule v e s) = mood s"
  by (cases "chunk e") (simp_all add: schedule_def Let_def)


lemma rest_mood [simp]: "mood (onmessage_rest e x m) = mood x"
  by (simp add: onmessage_rest_def onTurnComplete_def onInterrupted_def stopAll_def Let_def)







text \<open>
  \<^bold>\<open>C4\<close>. Outside a teardown, when the completion callback of a source leaves the set
  empty the phase becomes \<open>LISTENING\<close>; and when a turn-complete signal is handled in an
  open session and the set is empty, the phase is \<open>LISTENING\<close>.
\<close>

theorem drained_listening:
  "(\<not> isClosingRef s \<and> sourcesRef (onended s h) = [] \<longrightarrow> state (onended s h) = LISTENING)
   \<and> (\<not> isClosingRef s \<and> wellFormed m
        \<and> (truthy (audioData m) \<longrightarrow> outputAudioContextRef s \<noteq> None)
        \<and> turnComplete m \<and> sourcesRef (onmessage v e s m) = []
      \<longrightarrow> state (onmessage v e s m) = LISTENING)"
proof -
  have 1: "\<not> isClosingRef s \<and> sourcesRef (onended s h) = [] \<longrightarrow> state (onended s h) = LISTENING"
    by (simp add: onended_def Let_def)
  have 2: "state (onmessage v e s m) = LISTENING"
    if a: "\<not> isClosingRef s" "wellFormed m"
      "truthy (audioData m) \<longrightarrow> outputAudioContextRef s \<noteq> None"
      "turnComplete m" "sourcesRef (onmessage v e s m) = []"
  proof -
    have r: "onmessage v e s m = onmessage_rest e (beforeRest v e s m) m"
      using a(1-3) by (rule onmessage_reaches_rest)
    show ?thesis
    proof (cases "interrupted m")
      case True
      then show ?thesis by (simp add: r onmessage_rest_def Let_def)
    next
      case False
      then show ?thesis using a(4,5)
        by (simp add: r onmessage_rest_def onTurnComplete_def Let_def split: if_splits)
    qed
  qed
  show ?thesis using 1 2 by blast
qed

theorem drained_listening_witness:
  "state ((listening App_tsx)\<lparr>state := SPEAKING, sourcesRef := [7]\<rparr>) = SPEAKING
   \<and> state (onended ((listening App_tsx)\<lparr>state := SPEAKING, sourcesRef := [7]\<rparr>) 7) = LISTENING
   \<and> state (onmessage App_tsx (clockAt 3 1) ((listening App_tsx)\<lparr>state := SPEAKING\<rparr>)
        (silent\<lparr>turnComplete := True\<rparr>)) = LISTENING"
  using drained_listening
    [of "(listening App_tsx)\<lparr>state := SPEAKING, sourcesRef := [7]\<rparr>" 7
        "silent\<lparr>turnComplete := True\<rparr>" App_tsx "clockAt 3 1"]
    drained_listening
    [of "(listening App_tsx)\<lparr>state := SPEAKING\<rparr>" 7
        "silent\<lparr>turnComplete := True\<rparr>" App_tsx "clockAt 3 1"]
  by (simp add: listening_eval wellFormed_def silent_def truthy_def initial_def onended_def
      onmessage_def runCalls_def accumulate_def onmessage_rest_def onTurnComplete_def
      trim_def Let_def)

text \<open>
  \<^bold>\<open>C7\<close>. While the closing flag is set, the capture callback, the continuation that would
  send the frame, and the message handler each return the state they found: nothing is
  sent and nothing is changed. (The completion callback of a source is gated in its phase
  change only: it leaves the phase alone, and takes its own handle out of the set.)
\<close>

theorem closing_noop:
  assumes "isClosingRef s"
  shows "onaudioprocess s pcmBlob = s \<and> sendRealtimeInput_then s pcmBlob = s
     \<and> onmessage v e s m = s
     \<and> onended s h = s\<lparr>sourcesRef := removeAll h (sourcesRef s)\<rparr>"
  using assms
  by (simp add: onaudioprocess_def sendRealtimeInput_then_def onmessage_def onended_def Let_def)

theorem closing_noop_witness:
  "isClosingRef (cleanup_begin playing)
   \<and> onaudioprocess (cleanup_begin playing) ''AAAA'' = cleanup_begin playing
   \<and> sendRealtimeInput_then (cleanup_begin playing) ''AAAA'' = cleanup_begin playing
   \<and> onmessage App_tsx (clockAt 3 1) (cleanup_begin playing)
        (audioChunk\<lparr>turnComplete := True, interrupted := True\<rparr>) = cleanup_begin playing
   \<and> state (onended (cleanup_begin playing) 0) = SPEAKING
   \<and> sourcesRef (onended (cleanup_begin playing) 0) = [1]"
  using closing_noop
    [of "cleanup_begin playing" "''AAAA''" App_tsx "clockAt 3 1"
        "audioChunk\<lparr>turnComplete := True, interrupted := True\<rparr>" 0]
  by (simp add: cleanup_begin_def playing_eval initial_def emit_def Let_def)

subsection \<open>The playback schedule\<close>

lemma startTimes_append: "startTimes (a @ b) = startTimes a @ startTimes b"
  by (induction a rule: startTimes.induct) simp_all

lemma startTimes_responses: "list_all isResponse rs \<Longrightarrow> startTimes rs = []"
  by (induction rs rule: startTimes.induct) (simp_all add: isResponse_def)

lemma onTurnComplete_frame [simp]:
  "effects (onTurnComplete e s) = effects s"
  "nextStartTimeRef (onTurnComplete e s) = nextStartTimeRef s"
  "isClosingRef (onTurnComplete e s) = isClosingRef s"
  "outputAudioContextRef (onTurnComplete e s) = outputAudioContextRef s"
  "sourcesRef (onTurnComplete e s) = sourcesRef s"
  by (simp_all add: onTurnComplete_def Let_def)

lemma playAudio_plays:
  assumes "outputAudioContextRef s \<noteq> None" and "chunk e = Playable n d" and "\<not> skipsEmpty v n"
  shows "\<exists>x es. playAudio v e s = Some x \<and> effects x = effects s @ es
     \<and> startTimes es = [max (nextStartTimeRef s) (currentTime e)]
     \<and> nextStartTimeRef x = max (nextStartTimeRef s) (currentTime e) + d
     \<and> isClosingRef x = isClosingRef s \<and> outputAudioContextRef x \<noteq> None"
proof -
  obtain c where c: "outputAudioContextRef s = Some c" using assms(1) by auto
  show ?thesis
  proof (cases "v = Part_000 \<and> c \<noteq> Running")
    case True
    then show ?thesis using c assms(2,3)
      by (simp add: playAudio_def schedule_def Let_def emit_def)
  next
    case False
    then show ?thesis using c assms(2,3)
      by (simp add: playAudio_def schedule_def Let_def emit_def)
  qed
qed

lemma step_plays:
  assumes "openSession s" and "plays v (e, m)"
  shows "\<exists>es. effects (onmessage v e s m) = effects s @ es
     \<and> startTimes es = [max (nextStartTimeRef s) (currentTime e)]
     \<and> nextStartTimeRef (onmessage v e s m) = max (nextStartTimeRef s) (currentTime e) + duration e
     \<and> openSession (onmessage v e s m)"
proof -
  have a: "\<not> isClosingRef s" "outputAudioContextRef s \<noteq> None"
    using assms(1) by (simp_all add: openSession_def)
  have p: "truthy (audioData m)" "\<not> interrupted m" "wellFormed m"
    using assms(2) by (simp_all add: plays_def)
  obtain n d where ch: "chunk e = Playable n d" "\<not> skipsEmpty v n"
    using assms(2) by (auto simp add: plays_def split: chunk.splits)
  have d: "duration e = d" by (simp add: duration_def ch(1))
  let ?s1 = "snd (runCalls s m)"
  let ?s2 = "accumulate v ?s1 m"
  obtain rs where rs: "effects ?s1 = effects s @ rs" "list_all isResponse rs"
    using runCalls_effects by blast
  have "outputAudioContextRef ?s2 \<noteq> None" using a(2) by simp
  then obtain x es where x: "playAudio v e ?s2 = Some x" "effects x = effects ?s2 @ es"
    "startTimes es = [max (nextStartTimeRef ?s2) (currentTime e)]"
    "nextStartTimeRef x = max (nextStartTimeRef ?s2) (currentTime e) + d"
    "isClosingRef x = isClosingRef ?s2" "outputAudioContextRef x \<noteq> None"
    using playAudio_plays [OF _ ch] by blast
  have b: "beforeRest v e s m = x" using p(1) x(1) by (simp add: beforeRest_def Let_def)
  have r: "onmessage v e s m = (if turnComplete m then onTurnComplete e x else x)"
    using onmessage_reaches_rest [of s m v e] a p by (simp add: b onmessage_rest_def Let_def)
  have e1: "effects (onmessage v e s m) = effects s @ (rs @ es)"
    using x(2) rs(1) by (simp add: r)
  have e2: "startTimes (rs @ es) = [max (nextStartTimeRef s) (currentTime e)]"
    using x(3) rs(2) by (simp add: startTimes_append startTimes_responses)
  have e3: "nextStartTimeRef (onmessage v e s m) = max (nextStartTimeRef s) (currentTime e) + duration e"
    using x(4) by (simp add: r d)
  have e4: "openSession (onmessage v e s m)"
    using x(5,6) a(1) by (simp add: r openSession_def)
  show ?thesis using e1 e2 e3 e4 by blast
qed

lemma run_plays:
  assumes "list_all (plays v) ems" and "openSession s"
  shows "\<exists>es. effects (run v s (messages ems)) = effects s @ es
     \<and> startTimes es = planned (nextStartTimeRef s) (map timing ems)
     \<and> nextStartTimeRef (run v s (messages ems)) = cursorAfter (nextStartTimeRef s) (map timing ems)"
  using assms
proof (induction ems arbitrary: s)
  case Nil
  then show ?case by (simp add: messages_def)
next
  case (Cons em ems)
  obtain e m where em: "em = (e, m)" by (cases em)
  let ?s' = "onmessage v e s m"
  have pl: "plays v (e, m)" "list_all (plays v) ems" using Cons.prems(1) em by simp_all
  obtain es where es: "effects ?s' = effects s @ es"
    "startTimes es = [max (nextStartTimeRef s) (currentTime e)]"
    "nextStartTimeRef ?s' = max (nextStartTimeRef s) (currentTime e) + duration e"
    "openSession ?s'"
    using step_plays [OF Cons.prems(2) pl(1)] by blast
  obtain fs where fs: "effects (run v ?s' (messages ems)) = effects ?s' @ fs"
    "startTimes fs = planned (nextStartTimeRef ?s') (map timing ems)"
    "nextStartTimeRef (run v ?s' (messages ems)) = cursorAfter (nextStartTimeRef ?s') (map timing ems)"
    using Cons.IH [OF pl(2) es(4)] by blast
  have r: "run v s (messages (em # ems)) = run v ?s' (messages ems)"
    by (simp add: messages_def em step_def)
  have t: "timing em = (currentTime e, duration e)" by (simp add: timing_def em)
  have 1: "effects (run v s (messages (em # ems))) = effects s @ (es @ fs)"
    using es(1) fs(1) by (simp add: r)
  have 2: "startTimes (es @ fs) = planned (nextStartTimeRef s) (map timing (em # ems))"
    using es(2,3) fs(2) by (simp add: startTimes_append t)
  have 3: "nextStartTimeRef (run v s (messages (em # ems)))
       = cursorAfter (nextStartTimeRef s) (map timing (em # ems))"
    using es(3) fs(3) by (simp add: r t)
  show ?case using 1 2 3 by blast
qed

lemma planned_length [simp]: "length (planned c ts) = length ts"
  by (induction c ts rule: planned.induct) simp_all

lemma planned_separated:
  "Suc k < length ts \<Longrightarrow> planned c ts ! k + snd (ts ! k) \<le> planned c ts ! Suc k"
proof (induction c ts arbitrary: k rule: planned.induct)
  case (1 c)
  then show ?case by simp
next
  case (2 c now d r)
  show ?case
  proof (cases k)
    case 0
    then obtain now' d' r' where "r = (now', d') # r'" using 2(2) by (cases r) auto
    then show ?thesis using 0 by simp
  next
    case (Suc j)
    then have "Suc j < length r" using 2(2) by simp
    then show ?thesis using 2(1) Suc by simp
  qed
qed

lemma planned_punctual: "punctual c ts \<Longrightarrow> planned c ts = backToBack c (map snd ts)"
  by (induction c ts rule: planned.induct) (simp_all add: max_absorb1)

text \<open>How the handler can end.\<close>

lemma onmessage_shape:
  "onmessage v e s m = s
   \<or> onmessage v e s m = emit [UncaughtTypeError] (snd (runCalls s m))
   \<or> onmessage v e s m = accumulate v (snd (runCalls s m)) m
   \<or> onmessage v e s m = onmessage_rest e (accumulate v (snd (runCalls s m)) m) m
   \<or> (\<exists>x. playAudio v e (accumulate v (snd (runCalls s m)) m) = Some x
          \<and> onmessage v e s m = onmessage_rest e x m)"
proof -
  obtain b s1 where rc: "runCalls s m = (b, s1)" by (cases "runCalls s m")
  then have s1: "snd (runCalls s m) = s1" by simp
  show ?thesis
    unfolding onmessage_def rc s1
    by (cases b; cases "playAudio v e (accumulate v s1 m)") (simp_all add: Let_def)
qed

lemma rest_transcripts:
  "\<exists>es. transcripts (onmessage_rest e x m) = transcripts x @ es \<and> length es \<le> 1"
  by (simp add: onmessage_rest_def onTurnComplete_def Let_def)

lemma onmessage_transcripts:
  "\<exists>es. transcripts (onmessage v e s m) = transcripts s @ es \<and> length es \<le> 1"
proof -
  let ?s2 = "accumulate v (snd (runCalls s m)) m"
  have t2: "transcripts ?s2 = transcripts s" by simp
  consider (a) "onmessage v e s m = s"
    | (b) "onmessage v e s m = emit [UncaughtTypeError] (snd (runCalls s m))"
    | (c) "onmessage v e s m = ?s2"
    | (d) "onmessage v e s m = onmessage_rest e ?s2 m"
    | (f) x where "playAudio v e ?s2 = Some x" "onmessage v e s m = onmessage_rest e x m"
    using onmessage_shape [of v e s m] by blast
  then show ?thesis
  proof cases
    case a
    then show ?thesis by simp
  next
    case b
    then show ?thesis by simp
  next
    case c
    then show ?thesis by simp
  next
    case d
    then show ?thesis using rest_transcripts [of e ?s2 m] by simp
  next
    case f
    have "transcripts x = transcripts s" using playAudio_frame(1) [OF f(1)] by simp
    then show ?thesis using rest_transcripts [of e x m] f(2) by simp
  qed
qed

lemma schedule_cursor:
  "0 \<le> duration e \<Longrightarrow> nextStartTimeRef s \<le> nextStartTimeRef (schedule v e s)"
  by (cases "chunk e") (simp_all add: schedule_def duration_def Let_def max_def)

lemma playAudio_cursor:
  assumes "playAudio v e s = Some x" and "0 \<le> duration e"
  shows "nextStartTimeRef s \<le> nextStartTimeRef x"
proof -
  obtain c where c: "outputAudioContextRef s = Some c"
    using assms(1) by (auto simp add: playAudio_def split: option.splits)
  define s1 where "s1 = (if v = Part_000 \<and> c \<noteq> Running
                     then (emit [OutputContextResume] s)\<lparr>outputAudioContextRef := Some Running\<rparr>
                     else s)"
  have x: "x = schedule v e (s1\<lparr>state := SPEAKING\<rparr>)"
    using assms(1) c by (simp add: playAudio_def s1_def Let_def)
  have "nextStartTimeRef (s1\<lparr>state := SPEAKING\<rparr>) = nextStartTimeRef s" by (simp add: s1_def)
  then show ?thesis using schedule_cursor [OF assms(2), of "s1\<lparr>state := SPEAKING\<rparr>" v] x by simp
qed

lemma rest_cursor:
  "\<not> interrupted m \<Longrightarrow> nextStartTimeRef (onmessage_rest e x m) = nextStartTimeRef x"
  by (simp add: onmessage_rest_def Let_def)

lemma onmessage_cursor:
  assumes "\<not> interrupted m" and "0 \<le> duration e"
  shows "nextStartTimeRef s \<le> nextStartTimeRef (onmessage v e s m)"
proof -
  let ?s2 = "accumulate v (snd (runCalls s m)) m"
  consider (a) "onmessage v e s m = s"
    | (b) "onmessage v e s m = emit [UncaughtTypeError] (snd (runCalls s m))"
    | (c) "onmessage v e s m = ?s2"
    | (d) "onmessage v e s m = onmessage_rest e ?s2 m"
    | (f) x where "playAudio v e ?s2 = Some x" "onmessage v e s m = onmessage_rest e x m"
    using onmessage_shape [of v e s m] by blast
  then show ?thesis
  proof cases
    case a
    then show ?thesis by simp
  next
    case b
    then show ?thesis by simp
  next
    case c
    then show ?thesis by simp
  next
    case d
    then show ?thesis using rest_cursor [OF assms(1)] by simp
  next
    case f
    then show ?thesis using playAudio_cursor [OF f(1) assms(2)] rest_cursor [OF assms(1)] by simp
  qed
qed

subsection \<open>Every operation\<close>

lemma cleanup_stage_frame [simp]:
  "transcripts (cleanup_begin s) = transcripts s"
  "nextStartTimeRef (cleanup_begin s) = nextStartTimeRef s"
  "transcripts (cleanup_closeInput s) = transcripts s"
  "nextStartTimeRef (cleanup_closeInput s) = nextStartTimeRef s"
  "transcripts (cleanup_closeOutput s) = transcripts s"
  "nextStartTimeRef (cleanup_closeOutput s) = nextStartTimeRef s"
  "transcripts (cleanup_finish s) = transcripts s"
  "nextStartTimeRef (cleanup_finish s) = nextStartTimeRef s"
  by (simp_all add: cleanup_begin_def cleanup_closeInput_def cleanup_closeOutput_def
      cleanup_finish_def stopAll_def Let_def)

lemma startFailed_frame [simp]:
  "transcripts (startFailed v s msg) = transcripts s"
  "nextStartTimeRef (startFailed v s msg) = nextStartTimeRef s"
  by (cases v; simp add: startFailed_def Let_def cleanup_frame)+

lemma startConversation_frame [simp]:
  "transcripts (startConversation v env st s) = transcripts s"
  "nextStartTimeRef (startConversation v env st s) = nextStartTimeRef s"
  by (simp_all add: startConversation_def Let_def cleanup_frame
      split: option.splits start_failure.splits)

lemma handlers_frame [simp]:
  "transcripts (stopConversation b s) = transcripts s"
  "nextStartTimeRef (stopConversation b s) = nextStartTimeRef s"
  "transcripts (toggleStandby v supp s) = transcripts s"
  "nextStartTimeRef (toggleStandby v supp s) = nextStartTimeRef s"
  "transcripts (onopen s) = transcripts s" "nextStartTimeRef (onopen s) = nextStartTimeRef s"
  "transcripts (onclose s) = transcripts s" "nextStartTimeRef (onclose s) = nextStartTimeRef s"
  "transcripts (onended s h) = transcripts s" "nextStartTimeRef (onended s h) = nextStartTimeRef s"
  "transcripts (onerror v s err) = transcripts s"
  "nextStartTimeRef (onerror v s err) = nextStartTimeRef s"
  "transcripts (onaudioprocess s blob) = transcripts s"
  "nextStartTimeRef (onaudioprocess s blob) = nextStartTimeRef s"
  "transcripts (sendRealtimeInput_then s blob) = transcripts s"
  "nextStartTimeRef (sendRealtimeInput_then s blob) = nextStartTimeRef s"
  "transcripts (recognition_onresult v env cap s r) = transcripts s"
  "nextStartTimeRef (recognition_onresult v env cap s r) = nextStartTimeRef s"
  "transcripts (recognition_onend cap s) = transcripts s"
  "nextStartTimeRef (recognition_onend cap s) = nextStartTimeRef s"
  "transcripts (recognition_onerror v cap s) = transcripts s"
  "nextStartTimeRef (recognition_onerror v cap s) = nextStartTimeRef s"
  by (cases v; simp add: stopConversation_def toggleStandby_def enableWakeWord_def onopen_def
      onclose_def onended_def onerror_def onaudioprocess_def sendRealtimeInput_then_def
      recognition_onresult_def recognition_onend_def recognition_onerror_def sleepTimeout_def
      syncMoodRef_def cleanup_frame Let_def)+

lemma step_transcripts:
  assumes "keepsLog ev"
  shows "\<exists>es. transcripts (step v s ev) = transcripts s @ es \<and> length es \<le> 1"
proof (cases ev)
  case (Message e m)
  then show ?thesis using onmessage_transcripts [of v e s m] by (simp add: step_def)
next
  case ClickClear
  then show ?thesis using assms by (simp add: keepsLog_def)
qed (simp_all add: step_def sleepTimeout_def syncMoodRef_def split: option.splits)

lemma step_cursor:
  assumes "keepsCursor ev"
  shows "nextStartTimeRef s \<le> nextStartTimeRef (step v s ev)"
proof (cases ev)
  case (Message e m)
  then show ?thesis using assms onmessage_cursor [of m e s v]
    by (simp add: step_def keepsCursor_def)
qed (simp_all add: step_def sleepTimeout_def syncMoodRef_def split: option.splits)

lemma run_transcripts:
  "list_all keepsLog evs \<Longrightarrow> \<exists>es. transcripts (run v s evs) = transcripts s @ es"
proof (induction evs arbitrary: s)
  case Nil
  then show ?case by simp
next
  case (Cons ev evs)
  obtain es where es: "transcripts (step v s ev) = transcripts s @ es"
    using step_transcripts [of ev v s] Cons.prems by auto
  obtain fs where "transcripts (run v (step v s ev) evs) = transcripts (step v s ev) @ fs"
    using Cons.IH [of "step v s ev"] Cons.prems by auto
  then have "transcripts (run v s (ev # evs)) = transcripts s @ (es @ fs)" using es by simp
  then show ?case by blast
qed

lemma run_cursor:
  "list_all keepsCursor evs \<Longrightarrow> nextStartTimeRef s \<le> nextStartTimeRef (run v s evs)"
proof (induction evs arbitrary: s)
  case Nil
  then show ?case by simp
next
  case (Cons ev evs)
  have "nextStartTimeRef s \<le> nextStartTimeRef (step v s ev)"
    using step_cursor [of ev s v] Cons.prems by simp
  moreover have "nextStartTimeRef (step v s ev) \<le> nextStartTimeRef (run v (step v s ev) evs)"
    using Cons.IH [of "step v s ev"] Cons.prems by simp
  ultimately show ?case by simp
qed

lemmas eval_defs = listening_eval step_def onmessage_def runCalls_def accumulate_def playAudio_def
  schedule_def skipsEmpty_def Set_add_def onmessage_rest_def onTurnComplete_def onInterrupted_def
  stopAll_def truthy_def audioChunk_def silent_def clockAt_def emit_def initial_def performed_def
  applyMood_def Mood_index_def objectPrototypeNames_def Let_def

lemma listening_open: "openSession (listening v)"
  by (simp add: openSession_def listening_eval initial_def)

lemma threeChunks_play: "list_all (plays v) threeChunks"
  by (simp add: threeChunks_def plays_def wellFormed_def skipsEmpty_def truthy_def
      audioChunk_def silent_def clockAt_def)

lemma threeChunks_timing: "map timing threeChunks = [(2, 1), (5/2, 2), (4, 1/2)]"
  by (simp add: threeChunks_def timing_def duration_def clockAt_def)

text \<open>
  \<^bold>\<open>C6\<close> (as amended). In an open session, for every list of messages each of which carries
  an audio chunk that plays (and none of which is an interruption): the sources are started,
  in arrival order, at the times of the planned schedule, each at the later of the cursor
  and the device clock, after which the cursor is that start plus the duration; two
  successive buffers never overlap, the later one starting no earlier than the end of the
  one before; and when every buffer after the first is scheduled before the clock has passed
  the cursor, the start times are \<open>t\<close>, \<open>t + d1\<close>, \<open>t + d1 + d2\<close>, ... Over any events without an
  interruption the cursor never decreases.
\<close>

theorem playback_schedule:
  assumes "openSession s" and "list_all (plays v) ems"
  shows "startTimes (performed s (run v s (messages ems)))
           = planned (nextStartTimeRef s) (map timing ems)
     \<and> nextStartTimeRef (run v s (messages ems))
           = cursorAfter (nextStartTimeRef s) (map timing ems)
     \<and> (\<forall>k. Suc k < length ems \<longrightarrow>
           planned (nextStartTimeRef s) (map timing ems) ! k + duration (fst (ems ! k))
             \<le> planned (nextStartTimeRef s) (map timing ems) ! Suc k)
     \<and> (\<forall>em r. ems = em # r
           \<and> punctual (max (nextStartTimeRef s) (currentTime (fst em)) + duration (fst em))
                (map timing r)
         \<longrightarrow> planned (nextStartTimeRef s) (map timing ems)
               = backToBack (max (nextStartTimeRef s) (currentTime (fst em)))
                   (map (duration \<circ> fst) ems))
     \<and> (list_all keepsCursor evs \<longrightarrow> nextStartTimeRef s \<le> nextStartTimeRef (run v s evs))"
proof -
  obtain es where es: "effects (run v s (messages ems)) = effects s @ es"
    "startTimes es = planned (nextStartTimeRef s) (map timing ems)"
    "nextStartTimeRef (run v s (messages ems)) = cursorAfter (nextStartTimeRef s) (map timing ems)"
    using run_plays [OF assms(2,1)] by blast
  have 1: "startTimes (performed s (run v s (messages ems)))
           = planned (nextStartTimeRef s) (map timing ems)"
    using es(1,2) by (simp add: performed_def)
  have 3: "planned (nextStartTimeRef s) (map timing ems) ! k + duration (fst (ems ! k))
             \<le> planned (nextStartTimeRef s) (map timing ems) ! Suc k"
    if "Suc k < length ems" for k
    using planned_separated [of k "map timing ems" "nextStartTimeRef s"] that
    by (simp add: timing_def)
  have 4: "planned (nextStartTimeRef s) (map timing ems)
               = backToBack (max (nextStartTimeRef s) (currentTime (fst em)))
                   (map (duration \<circ> fst) ems)"
    if "ems = em # r"
      "punctual (max (nextStartTimeRef s) (currentTime (fst em)) + duration (fst em)) (map timing r)"
    for em r
  proof -
    have "snd \<circ> timing = duration \<circ> fst" by (rule ext) (simp add: timing_def)
    then show ?thesis using that planned_punctual [OF that(2)] by (simp add: timing_def)
  qed
  have 5: "list_all keepsCursor evs \<longrightarrow> nextStartTimeRef s \<le> nextStartTimeRef (run v s evs)"
    using run_cursor by blast
  show ?thesis using 1 es(3) 3 4 5 by blast
qed

theorem playback_schedule_witness:
  "startTimes (performed (listening Part_000)
       (run Part_000 (listening Part_000) (messages threeChunks))) = [2, 3, 5]
   \<and> nextStartTimeRef (run Part_000 (listening Part_000) (messages threeChunks)) = 11/2"
  using playback_schedule
      [where s = "listening Part_000" and v = Part_000 and ems = threeChunks and evs = "[]",
       OF listening_open threeChunks_play, THEN conjunct1]
    playback_schedule
      [where s = "listening Part_000" and v = Part_000 and ems = threeChunks and evs = "[]",
       OF listening_open threeChunks_play, THEN conjunct2, THEN conjunct1]
  by (simp add: threeChunks_timing listening_eval initial_def)

text \<open>
  The sentence of the specification, as it stands, fails when a chunk arrives after the
  cursor has passed: two chunks
  of one second, scheduled at device times 1 and 5, start at 1 and 5, not at 1 and 2.
\<close>

theorem late_chunk_starts_late:
  "startTimes (performed (listening App_tsx)
       (run App_tsx (listening App_tsx)
          (messages [(clockAt 1 1, audioChunk), (clockAt 5 1, audioChunk)]))) = [1, 5]
   \<and> backToBack 1 [1, 1] = [1, 2]"
  by (simp add: messages_def eval_defs)

text \<open>
  \<^bold>\<open>C10\<close> (as amended). Every operation other than the CLEAR button leaves the log it
  found in place and unchanged, with at most one entry appended after it; so does every
  run of such operations. CLEAR replaces the log by the empty log.
\<close>

theorem log_append_only:
  "(keepsLog ev \<longrightarrow> (\<exists>es. transcripts (step v s ev) = transcripts s @ es \<and> length es \<le> 1))
   \<and> (list_all keepsLog evs \<longrightarrow> (\<exists>es. transcripts (run v s evs) = transcripts s @ es))
   \<and> transcripts (step v s ClickClear) = []"
  using step_transcripts [of ev v s] run_transcripts [of evs v s] by (simp add: step_def)


theorem log_append_only_witness:
  "transcripts (step App_tsx spoken (Message (clockAt 9 1)
       (silent\<lparr>outputTranscription := Some ''Walang anuman'', turnComplete := True\<rparr>)))
     = transcripts spoken @ [\<lparr>entry_role = Role_model, entry_text = ''Walang anuman'',
          entry_timestamp = 1700000000000, entry_mood = Member NEUTRAL\<rparr>]
   \<and> transcripts (run App_tsx spoken [ClickStop, ClickStandby True]) = transcripts spoken"
  using log_append_only
    [of "Message (clockAt 9 1)
          (silent\<lparr>outputTranscription := Some ''Walang anuman'', turnComplete := True\<rparr>)"
        App_tsx spoken "[ClickStop, ClickStandby True]"]
  by (simp add: spoken_def eval_defs trim_def isWhiteSpace_def keepsLog_def)

text \<open>
  The sentence of the specification, as it stands, fails at CLEAR: the entry of a completed
  turn is gone afterwards.
\<close>

theorem clear_empties_log:
  "transcripts spoken = [\<lparr>entry_role = Role_model, entry_text = ''Salamat po'',
       entry_timestamp = 1700000000000, entry_mood = Member NEUTRAL\<rparr>]
   \<and> transcripts (step App_tsx spoken ClickClear) = []"
  by (simp add: spoken_def eval_defs trim_def isWhiteSpace_def)

subsection \<open>Dropped chunks\<close>

lemma startTimes_stops [simp]: "startTimes (map SourceStop hs) = []"
  by (induction hs) simp_all

lemma logged_responses: "list_all isResponse rs \<Longrightarrow> ConsoleError \<notin> set rs"
  by (auto simp add: list_all_iff isResponse_def)

text \<open>What the audio branch does with a chunk that is not played.\<close>

lemma playAudio_dropped:
  assumes "outputAudioContextRef s \<noteq> None"
    and "throws (chunk e) \<or> (v = Part_000 \<and> emptyBytes (chunk e))"
  shows "\<exists>x es. playAudio v e s = Some x \<and> effects x = effects s @ es
     \<and> startTimes es = [] \<and> sourcesRef x = sourcesRef s \<and> state x = SPEAKING
     \<and> sessionRef x = sessionRef s \<and> audioContextRef x = audioContextRef s
     \<and> errorMessage x = errorMessage s \<and> isClosingRef x = isClosingRef s
     \<and> outputAudioContextRef x \<noteq> None
     \<and> (v = Part_000 \<and> emptyBytes (chunk e) \<longrightarrow> ConsoleError \<notin> set es)
     \<and> (throws (chunk e) \<and> \<not> (v = Part_000 \<and> emptyBytes (chunk e))
          \<longrightarrow> ConsoleError \<in> set es)"
proof -
  obtain c where c: "outputAudioContextRef s = Some c" using assms(1) by auto
  show ?thesis
    using c assms(2)
    by (cases "chunk e"; cases "v = Part_000 \<and> c \<noteq> Running")
       (auto simp add: playAudio_def schedule_def skipsEmpty_def throws_def emptyBytes_def
          Let_def emit_def)
qed

lemma rest_dropped:
  "\<exists>fs. effects (onmessage_rest e x m) = effects x @ fs \<and> startTimes fs = []
     \<and> ConsoleError \<notin> set fs
     \<and> set (sourcesRef (onmessage_rest e x m)) \<subseteq> set (sourcesRef x)
     \<and> sessionRef (onmessage_rest e x m) = sessionRef x
     \<and> audioContextRef (onmessage_rest e x m) = audioContextRef x
     \<and> errorMessage (onmessage_rest e x m) = errorMessage x
     \<and> isClosingRef (onmessage_rest e x m) = isClosingRef x
     \<and> outputAudioContextRef (onmessage_rest e x m) = outputAudioContextRef x
     \<and> (state (onmessage_rest e x m) = state x \<or> state (onmessage_rest e x m) = LISTENING)"
  by (cases "interrupted m"; cases "turnComplete m")
     (auto simp add: onmessage_rest_def onTurnComplete_def onInterrupted_def stopAll_def
        Let_def emit_def)

lemma onmessage_dropped:
  assumes "openSession s" and "wellFormed m" and "truthy (audioData m)"
    and "throws (chunk e) \<or> (v = Part_000 \<and> emptyBytes (chunk e))"
  shows "sessionKept s (onmessage v e s m)
     \<and> (v = Part_000 \<and> emptyBytes (chunk e)
          \<longrightarrow> ConsoleError \<notin> set (performed s (onmessage v e s m)))
     \<and> (throws (chunk e) \<and> \<not> (v = Part_000 \<and> emptyBytes (chunk e))
          \<longrightarrow> ConsoleError \<in> set (performed s (onmessage v e s m)))"
proof -
  have a: "\<not> isClosingRef s" "outputAudioContextRef s \<noteq> None"
    using assms(1) by (simp_all add: openSession_def)
  let ?s1 = "snd (runCalls s m)"
  let ?s2 = "accumulate v ?s1 m"
  obtain rs where rs: "effects ?s1 = effects s @ rs" "list_all isResponse rs"
    using runCalls_effects by blast
  have "outputAudioContextRef ?s2 \<noteq> None" using a(2) by simp
  then obtain x es where x: "playAudio v e ?s2 = Some x" "effects x = effects ?s2 @ es"
    "startTimes es = []" "sourcesRef x = sourcesRef ?s2" "state x = SPEAKING"
    "sessionRef x = sessionRef ?s2" "audioContextRef x = audioContextRef ?s2"
    "errorMessage x = errorMessage ?s2" "isClosingRef x = isClosingRef ?s2"
    "outputAudioContextRef x \<noteq> None"
    "v = Part_000 \<and> emptyBytes (chunk e) \<longrightarrow> ConsoleError \<notin> set es"
    "throws (chunk e) \<and> \<not> (v = Part_000 \<and> emptyBytes (chunk e)) \<longrightarrow> ConsoleError \<in> set es"
    using playAudio_dropped [OF _ assms(4)] by blast
  have b: "beforeRest v e s m = x" using assms(3) x(1) by (simp add: beforeRest_def Let_def)
  have r: "onmessage v e s m = onmessage_rest e x m"
    using onmessage_reaches_rest [of s m v e] a assms(2) by (simp add: b)
  obtain fs where fs: "effects (onmessage_rest e x m) = effects x @ fs" "startTimes fs = []"
    "ConsoleError \<notin> set fs"
    "set (sourcesRef (onmessage_rest e x m)) \<subseteq> set (sourcesRef x)"
    "sessionRef (onmessage_rest e x m) = sessionRef x"
    "audioContextRef (onmessage_rest e x m) = audioContextRef x"
    "errorMessage (onmessage_rest e x m) = errorMessage x"
    "isClosingRef (onmessage_rest e x m) = isClosingRef x"
    "outputAudioContextRef (onmessage_rest e x m) = outputAudioContextRef x"
    "state (onmessage_rest e x m) = state x \<or> state (onmessage_rest e x m) = LISTENING"
    using rest_dropped [of e x m] by blast
  have p: "performed s (onmessage v e s m) = rs @ es @ fs"
    using rs(1) x(2) fs(1) by (simp add: performed_def r)
  have 1: "startTimes (performed s (onmessage v e s m)) = []"
    using rs(2) x(3) fs(2) by (simp add: p startTimes_append startTimes_responses)
  have 2: "sessionKept s (onmessage v e s m)"
    unfolding sessionKept_def openSession_def
    using 1 fs(4-10) x(4-10) a(1) by (auto simp add: r)
  have "ConsoleError \<notin> set (rs @ es @ fs)"
    if "v = Part_000 \<and> emptyBytes (chunk e)"
    using that x(11) fs(3) logged_responses [OF rs(2)] by simp
  then have 3: "ConsoleError \<notin> set (performed s (onmessage v e s m))"
    if "v = Part_000 \<and> emptyBytes (chunk e)"
    using that p by simp
  have 4: "ConsoleError \<in> set (performed s (onmessage v e s m))"
    if "throws (chunk e) \<and> \<not> (v = Part_000 \<and> emptyBytes (chunk e))"
    using that x(12) by (simp add: p)
  show ?thesis using 2 3 4 by blast
qed

lemma schedule_ignores_length:
  "schedule App_tsx (e\<lparr>chunk := Playable 0 d\<rparr>) s = schedule App_tsx (e\<lparr>chunk := Playable n d\<rparr>) s"
  by (simp add: schedule_def skipsEmpty_def Let_def)

lemma playAudio_ignores_length:
  "playAudio App_tsx (e\<lparr>chunk := Playable 0 d\<rparr>) s = playAudio App_tsx (e\<lparr>chunk := Playable n d\<rparr>) s"
  unfolding playAudio_def schedule_ignores_length [where e = e and d = d and n = n]
  by (rule refl)

lemma rest_ignores_chunk: "onmessage_rest (e\<lparr>chunk := c\<rparr>) x m = onmessage_rest e x m"
  by (simp add: onmessage_rest_def onTurnComplete_def Let_def)

lemma App_tsx_ignores_length:
  "onmessage App_tsx (e\<lparr>chunk := Playable 0 d\<rparr>) s m
     = onmessage App_tsx (e\<lparr>chunk := Playable n d\<rparr>) s m"
  unfolding onmessage_def playAudio_ignores_length [where e = e and d = d and n = n]
    rest_ignores_chunk
  by (rule refl)

text \<open>
  \<^bold>\<open>C9\<close> (as amended). For an audio chunk handled in an open session: when a statement of
  the \<^verbatim>\<open>try\<close> block throws (decoding, building the buffer, starting the source), the
  session is kept (transport and contexts held as before, no error message, the phase
  \<open>SPEAKING\<close> or \<open>LISTENING\<close>), nothing is scheduled, the set gains nothing, and the
  error is logged. In the
  second file a chunk whose decoded bytes are empty is skipped: likewise nothing is
  scheduled, and nothing is logged. \<^verbatim>\<open>src/App.tsx\<close> has no such check: what it does with a
  chunk does not depend on the length of the bytes.
\<close>

theorem chunk_error_dropped:
  assumes "openSession s" and "wellFormed m" and "truthy (audioData m)"
  shows "(throws (chunk e) \<longrightarrow> sessionKept s (onmessage v e s m))
     \<and> (throws (chunk e) \<and> \<not> (v = Part_000 \<and> emptyBytes (chunk e))
          \<longrightarrow> ConsoleError \<in> set (performed s (onmessage v e s m)))
     \<and> (emptyBytes (chunk e) \<longrightarrow>
          sessionKept s (onmessage Part_000 e s m)
          \<and> ConsoleError \<notin> set (performed s (onmessage Part_000 e s m)))
     \<and> onmessage App_tsx (e\<lparr>chunk := Playable 0 d\<rparr>) s m
          = onmessage App_tsx (e\<lparr>chunk := Playable n d\<rparr>) s m"
  using onmessage_dropped [OF assms, of e v] onmessage_dropped [OF assms, of e Part_000]
    App_tsx_ignores_length [where e = e and d = d and s = s and m = m and n = n]
  by blast

theorem chunk_error_dropped_witness:
  "sessionKept (listening App_tsx)
      (onmessage App_tsx (withChunk DecodeThrows) (listening App_tsx) audioChunk)
   \<and> state (onmessage App_tsx (withChunk DecodeThrows) (listening App_tsx) audioChunk) = SPEAKING
   \<and> performed (listening App_tsx)
        (onmessage App_tsx (withChunk DecodeThrows) (listening App_tsx) audioChunk)
       = [ConsoleError]
   \<and> ConsoleError \<notin> set (performed (listening Part_000)
        (onmessage Part_000 (withChunk (Playable 0 0)) (listening Part_000) audioChunk))"
  using chunk_error_dropped
      [where s = "listening App_tsx" and m = audioChunk and e = "withChunk DecodeThrows"
         and v = App_tsx and d = 0 and n = 1, OF listening_open]
    chunk_error_dropped
      [where s = "listening Part_000" and m = audioChunk and e = "withChunk (Playable 0 0)"
         and v = Part_000 and d = 0 and n = 1, OF listening_open]
  by (simp add: wellFormed_def truthy_def audioChunk_def silent_def withChunk_def throws_def
      emptyBytes_def eval_defs)

text \<open>
  The sentence of the specification, as it stands, fails in \<^verbatim>\<open>src/App.tsx\<close>: a chunk of
  no bytes for which the decoder
  returns a buffer of duration 0 is started and added to the set, and one for which the
  decoder throws is logged as an error; the second file does neither.
\<close>

theorem App_tsx_schedules_empty_chunk:
  "sourcesRef (onmessage App_tsx (withChunk (Playable 0 0)) (listening App_tsx) audioChunk) = [0]
   \<and> performed (listening App_tsx)
        (onmessage App_tsx (withChunk (Playable 0 0)) (listening App_tsx) audioChunk)
       = [SourceStart 0 3]
   \<and> performed (listening App_tsx)
        (onmessage App_tsx (withChunk (BufferThrows 0)) (listening App_tsx) audioChunk)
       = [ConsoleError]
   \<and> sourcesRef (onmessage Part_000 (withChunk (Playable 0 0)) (listening Part_000) audioChunk) = []
   \<and> performed (listening Part_000)
        (onmessage Part_000 (withChunk (Playable 0 0)) (listening Part_000) audioChunk) = []
   \<and> performed (listening Part_000)
        (onmessage Part_000 (withChunk (BufferThrows 0)) (listening Part_000) audioChunk) = []"
  by (simp add: withChunk_def eval_defs)


subsection \<open>Tool calls\<close>

text \<open>
  \<^bold>\<open>C5\<close>, at the failing input. The key "toString" is not a member of the enumeration, yet
  \<^verbatim>\<open>Mood["toString"]\<close> is the function inherited from \<^verbatim>\<open>Object.prototype\<close>, which is
  truthy: the guard passes and \<^verbatim>\<open>setMood\<close> is called with it, in both files. The mood state
  is no longer \<open>NEUTRAL\<close>. The acknowledgement is sent once. ("FURIOUS" leaves the mood
  unchanged.) A \<^verbatim>\<open>setMood\<close> call without \<^verbatim>\<open>args\<close> makes the handler throw before any
  acknowledgement.
\<close>

theorem setMood_inherited_key:
  "mood (listening App_tsx) = Member NEUTRAL
   \<and> mood (onmessage App_tsx (clockAt 3 1) (listening App_tsx)
        (setMoodCall ''call-1'' (Some (Some ''toString'')))) = Inherited ''toString''
   \<and> mood (onmessage Part_000 (clockAt 3 1) (listening Part_000)
        (setMoodCall ''call-1'' (Some (Some ''toString'')))) = Inherited ''toString''
   \<and> mood (onmessage App_tsx (clockAt 3 1) (listening App_tsx)
        (setMoodCall ''call-1'' (Some (Some ''FURIOUS'')))) = Member NEUTRAL
   \<and> performed (listening App_tsx) (onmessage App_tsx (clockAt 3 1) (listening App_tsx)
        (setMoodCall ''call-1'' (Some (Some ''toString'')))) = [SendToolResponse ''call-1'' ''setMood'']
   \<and> performed (listening App_tsx) (onmessage App_tsx (clockAt 3 1) (listening App_tsx)
        (setMoodCall ''call-2'' None)) = [UncaughtTypeError]"
  by (simp add: setMoodCall_def eval_defs)

subsection \<open>The wake word\<close>

lemma wake_phrases:
  "isTrigger App_tsx ''Hey Salin please start''" "\<not> isTrigger App_tsx ''hello there''"
  "isTrigger Part_000 ''Hey Salin please start''" "\<not> isTrigger Part_000 ''hello there''"
  by code_simp+


text \<open>
  \<^bold>\<open>C8\<close>, at the failing input. \<^verbatim>\<open>toggleStandby\<close> calls \<^verbatim>\<open>enableWakeWord\<close> only in a render
  whose \<^verbatim>\<open>state\<close> is not \<open>STANDBY\<close>, and the handlers built there keep that constant: entered
  from \<open>IDLE\<close>, the recognizer's \<^verbatim>\<open>onend\<close> (and \<^verbatim>\<open>onerror\<close>) compare \<open>IDLE\<close> with \<open>STANDBY\<close> and
  never call \<^verbatim>\<open>recognition.start()\<close>, although the phase is \<open>STANDBY\<close>. The result handler
  does what the claim says: "hello there" changes nothing, a final result containing a
  trigger stops the recognizer and starts one session.
\<close>

theorem standby_recognizer_not_restarted:
  "state (standby App_tsx) = STANDBY \<and> recognitionRef (standby App_tsx) = Some IDLE
   \<and> step App_tsx (standby App_tsx) RecognitionEnd = standby App_tsx
   \<and> state (standby Part_000) = STANDBY \<and> recognitionRef (standby Part_000) = Some IDLE
   \<and> step Part_000 (standby Part_000) RecognitionEnd = standby Part_000
   \<and> step Part_000 (standby Part_000) RecognitionError = standby Part_000
   \<and> step App_tsx (standby App_tsx) (RecognitionResult withKey (finalResult ''hello there''))
       = standby App_tsx
   \<and> state (step App_tsx (standby App_tsx)
        (RecognitionResult withKey (finalResult ''Hey Salin please start''))) = CONNECTING
   \<and> performed (standby App_tsx) (step App_tsx (standby App_tsx)
        (RecognitionResult withKey (finalResult ''Hey Salin please start''))) = [RecognitionStop]"
  by (simp add: standby_def step_def toggleStandby_def enableWakeWord_def recognition_onend_def
      recognition_onerror_def recognition_onresult_def finalResult_def wake_phrases withKey_def
      startConversation_def apiKeyMissing_def cleanupResources_def cleanup_finish_def
      cleanup_closeOutput_def cleanup_closeInput_def cleanup_begin_def stopAll_def
      performed_def initial_def emit_def Let_def)

end
